theory Spec2Isabelle
  imports Complex_Main "HOL-Library.Log_Nat"
begin

section \<open>Python values used by the FNOL agent\<close>

text \<open>
  Strings are lists of \<^typ>\<open>char\<close>. The development covers ASCII text: the character
  tests below (\<open>is_space\<close>, \<open>is_digit\<close>, \<open>lower_char\<close>) are Python's \<open>str.isspace\<close>,
  the regex classes \<open>\s\<close> and \<open>\d\<close> and \<open>str.lower\<close> restricted to code points below 128;
  a character outside that range is neither a space, a digit nor a letter here.
\<close>

definition is_space :: "char \<Rightarrow> bool" where
  "is_space c = (c \<in> set [CHR 0x09, CHR 0x0A, CHR 0x0B, CHR 0x0C, CHR 0x0D,
                            CHR 0x1C, CHR 0x1D, CHR 0x1E, CHR 0x1F, CHR 0x20])"

definition is_digit :: "char \<Rightarrow> bool" where
  "is_digit c = (c \<in> set ''0123456789'')"

definition upper_letters :: string where
  "upper_letters = ''ABCDEFGHIJKLMNOPQRSTUVWXYZ''"

definition lower_letters :: string where
  "lower_letters = ''abcdefghijklmnopqrstuvwxyz''"

definition is_upper :: "char \<Rightarrow> bool" where
  "is_upper c = (c \<in> set upper_letters)"

definition is_lower :: "char \<Rightarrow> bool" where
  "is_lower c = (c \<in> set lower_letters)"

definition lower_char :: "char \<Rightarrow> char" where
  "lower_char c = (case map_of (zip upper_letters lower_letters) c of Some l \<Rightarrow> l | None \<Rightarrow> c)"

definition upper_char :: "char \<Rightarrow> char" where
  "upper_char c = (case map_of (zip lower_letters upper_letters) c of Some u \<Rightarrow> u | None \<Rightarrow> c)"

definition lower :: "string \<Rightarrow> string" where
  "lower s = map lower_char s"

definition upper :: "string \<Rightarrow> string" where
  "upper s = map upper_char s"

text \<open>\<open>s.strip()\<close>: whitespace removed at both ends.\<close>

definition strip :: "string \<Rightarrow> string" where
  "strip s = rev (dropWhile is_space (rev (dropWhile is_space s)))"

text \<open>\<open>s.startswith(k)\<close> and the substring test \<open>k in s\<close>.\<close>

fun starts_with :: "string \<Rightarrow> string \<Rightarrow> bool" where
  "starts_with [] s = True"
| "starts_with (k # ks) [] = False"
| "starts_with (k # ks) (c # cs) = (k = c \<and> starts_with ks cs)"

fun str_in :: "string \<Rightarrow> string \<Rightarrow> bool" where
  "str_in k [] = (k = [])"
| "str_in k (c # cs) = (starts_with k (c # cs) \<or> str_in k cs)"

text \<open>
  \<open>s.count(k)\<close> for a non-empty \<open>k\<close>: occurrences counted from the left without overlap.
  The second argument is the number of characters still covered by the occurrence just
  counted.
\<close>

fun count_from :: "string \<Rightarrow> nat \<Rightarrow> string \<Rightarrow> nat" where
  "count_from k n [] = 0"
| "count_from k n (c # cs) =
     (if 0 < n then count_from k (n - 1) cs
      else if starts_with k (c # cs) then 1 + count_from k (length k - 1) cs
      else count_from k 0 cs)"

definition str_count :: "string \<Rightarrow> string \<Rightarrow> nat" where
  "str_count s k = count_from k 0 s"

text \<open>\<open>sep.join(xs)\<close>.\<close>

fun join :: "string \<Rightarrow> string list \<Rightarrow> string" where
  "join sep [] = []"
| "join sep [x] = x"
| "join sep (x # y # ys) = x @ sep @ join sep (y # ys)"

text \<open>
  A Python \<open>float\<close>: a finite binary64 value, given by the rational number it denotes,
  or one of the three special values. Negative zero is not distinguished from zero.
\<close>

datatype pyfloat = Fin rat | PInf | NInf | NaN

fun float_lt :: "pyfloat \<Rightarrow> pyfloat \<Rightarrow> bool" where
  "float_lt (Fin a) (Fin b) = (a < b)"
| "float_lt (Fin a) PInf = True"
| "float_lt NInf (Fin b) = True"
| "float_lt NInf PInf = True"
| "float_lt _ _ = False"

definition float_gt :: "pyfloat \<Rightarrow> pyfloat \<Rightarrow> bool" where
  "float_gt a b = float_lt b a"

text \<open>Truth value of a float: only zero is falsy.\<close>

definition float_truthy :: "pyfloat \<Rightarrow> bool" where
  "float_truthy f = (f \<noteq> Fin 0)"

text \<open>
  The values an extracted-fields dictionary holds: strings, floats, and \<open>None\<close> standing
  for any object that is neither.
\<close>

datatype pyval = PStr string | PFloat pyfloat | PNone

fun truthy :: "pyval \<Rightarrow> bool" where
  "truthy (PStr s) = (s \<noteq> [])"
| "truthy (PFloat f) = float_truthy f"
| "truthy PNone = False"

type_synonym fields = "string \<rightharpoonup> pyval"

datatype error = AttributeError | TypeError | ValueError

subsection \<open>Number formatting\<close>

text \<open>
  The format specifications \<open>:,.2f\<close> and \<open>:,.0f\<close>: the exact value is rounded to the given
  number of decimals, ties to even, and the integer part is grouped in thousands.
\<close>

definition round_half_even :: "rat \<Rightarrow> int" where
  "round_half_even x =
     (let f = \<lfloor>x\<rfloor>; d = x - of_int f
      in if d < 1 / 2 then f else if 1 / 2 < d then f + 1 else if even f then f else f + 1)"

definition digit_char :: "int \<Rightarrow> char" where
  "digit_char d = char_of (48 + d)"

text \<open>Decimal digits of a non-negative integer, least significant first.\<close>

function rev_digits :: "int \<Rightarrow> string" where
  "rev_digits n =
     (if n < 10 then [digit_char n] else digit_char (n mod 10) # rev_digits (n div 10))"
  by pat_completeness auto
termination
  by (relation "measure nat") auto

declare rev_digits.simps [simp del]

definition decimal :: "int \<Rightarrow> string" where
  "decimal n = rev (rev_digits n)"

fun group3 :: "string \<Rightarrow> string" where
  "group3 (a # b # c # d # ds) = a # b # c # CHR '','' # group3 (d # ds)"
| "group3 ds = ds"

definition with_commas :: "int \<Rightarrow> string" where
  "with_commas n = rev (group3 (rev_digits n))"

definition pad_left :: "nat \<Rightarrow> string \<Rightarrow> string" where
  "pad_left k s = replicate (k - length s) CHR ''0'' @ s"

fun format_comma_f :: "nat \<Rightarrow> pyfloat \<Rightarrow> string" where
  "format_comma_f k (Fin v) =
     (let n = round_half_even (\<bar>v\<bar> * 10 ^ k);
          ip = n div 10 ^ k; fp = n mod 10 ^ k
      in (if v < 0 then ''-'' else '''') @ with_commas ip
         @ (if k = 0 then '''' else ''.'' @ pad_left k (decimal fp)))"
| "format_comma_f k PInf = ''inf''"
| "format_comma_f k NInf = ''-inf''"
| "format_comma_f k NaN = ''nan''"

declare format_comma_f.simps [simp del]

section \<open>Configuration (config.py)\<close>

definition FAST_TRACK_THRESHOLD :: pyfloat where
  "FAST_TRACK_THRESHOLD = Fin 25000"

definition FRAUD_KEYWORDS :: "string list" where
  "FRAUD_KEYWORDS =
     [''fraud'', ''fraudulent'', ''false'', ''fake'', ''staged'', ''setup'',
      ''inconsistent'', ''contradict'', ''lie'', ''lied'', ''lying'',
      ''misrepresent'', ''exaggerat'', ''inflated'', ''suspicious'',
      ''fabricated'', ''concocted'', ''scam'', ''scheme'']"

definition INJURY_KEYWORDS :: "string list" where
  "INJURY_KEYWORDS =
     [''injury'', ''injured'', ''hurt'', ''pain'', ''hospital'',
      ''ambulance'', ''medical'', ''doctor'', ''fracture'', ''broken'',
      ''whiplash'', ''concussion'', ''bleeding'', ''wound'', ''laceration'',
      ''surgery'', ''therapy'', ''treatment'', ''paramedic'', ''emergency'']"

definition REQUIRED_FIELDS :: "string list" where
  "REQUIRED_FIELDS =
     [''policy_number'', ''policyholder_name'', ''date_of_loss'', ''location'',
      ''description'', ''estimated_damage'', ''claim_type'']"

section \<open>Routing engine (routing\_engine.py)\<close>

text \<open>
  \<open>extracted_fields.get('description', '').lower()\<close>: a missing key gives the empty
  string, a string is lower-cased, and any other value has no \<open>lower\<close> method.
\<close>

definition get_description_lower :: "fields \<Rightarrow> error + string" where
  "get_description_lower ef =
     (case ef ''description'' of
        None \<Rightarrow> Inr ''''
      | Some (PStr d) \<Rightarrow> Inr (lower d)
      | Some _ \<Rightarrow> Inl AttributeError)"

text \<open>
  \<open>_check_additional_factors\<close>, on the lower-cased description. It is only called after
  \<open>determine_route\<close> has read the description, so the read cannot fail here.
\<close>

definition check_additional_factors :: "string \<Rightarrow> string list" where
  "check_additional_factors description =
     (if 1 < str_count description ''vehicle'' \<or> 1 < str_count description ''car''
        then [''Multiple vehicles involved''] else [])
     @ (if str_in ''hit and run'' description \<or> str_in ''hit & run'' description
        then [''Hit-and-run incident''] else [])
     @ (if list_ex (\<lambda>w. str_in w description)
             [''commercial'', ''truck'', ''semi'', ''fleet'', ''business'']
        then [''Commercial vehicle involved''] else [])
     @ (if list_ex (\<lambda>w. str_in w description)
             [''previous'', ''prior'', ''last claim'', ''before'']
        then [''Reference to previous claims''] else [])"

text \<open>
  Rule 4 and the additional considerations. \<open>damage > 0\<close> compares a float with the
  integer 0; the default \<open>0\<close> of a missing key behaves as the float zero; a string or
  \<open>None\<close> cannot be compared with an integer.
\<close>

definition damage_rule :: "pyval \<Rightarrow> string \<Rightarrow> error + (string \<times> string)" where
  "damage_rule damage description =
     (case damage of
        PFloat d \<Rightarrow>
          (let (route, part) =
             (if float_gt d (Fin 0) then
                (if float_lt d FAST_TRACK_THRESHOLD
                 then (''Fast-track'',
                       ''Estimated damage ($'' @ format_comma_f 2 d @ '') is below $''
                         @ format_comma_f 0 FAST_TRACK_THRESHOLD @ '' threshold'')
                 else (''Standard Processing'',
                       ''Estimated damage ($'' @ format_comma_f 2 d @ '') meets or exceeds $''
                         @ format_comma_f 0 FAST_TRACK_THRESHOLD @ '' threshold''))
              else (''Manual Review'', ''Damage amount not specified or could not be extracted''))
           in Inr (route, join ''. '' (part # check_additional_factors description)))
      | _ \<Rightarrow> Inl TypeError)"

definition determine_route :: "fields \<Rightarrow> string list \<Rightarrow> error + (string \<times> string)" where
  "determine_route extracted_fields missing_fields =
     (if missing_fields \<noteq> [] then
        Inr (''Manual Review'',
             join ''. '' [''Missing required fields: '' @ join '', '' missing_fields])
      else
        (case get_description_lower extracted_fields of
           Inl e \<Rightarrow> Inl e
         | Inr description \<Rightarrow>
            (let damage = (case extracted_fields ''estimated_damage'' of
                             None \<Rightarrow> PFloat (Fin 0) | Some v \<Rightarrow> v);
                 claim_type = (case extracted_fields ''claim_type'' of
                                 None \<Rightarrow> PStr ''property_damage'' | Some v \<Rightarrow> v);
                 fraud_keywords_found = filter (\<lambda>k. str_in k description) FRAUD_KEYWORDS
             in if fraud_keywords_found \<noteq> [] then
                  Inr (''Investigation Flag'',
                       join ''. '' [''Fraud indicators detected: ''
                                     @ join '', '' (take 3 fraud_keywords_found)])
                else if claim_type = PStr ''injury'' then
                  (let injury_keywords = filter (\<lambda>k. str_in k description) INJURY_KEYWORDS
                   in Inr (''Specialist Queue'',
                           join ''. ''
                             [if injury_keywords \<noteq> []
                              then ''Injury claim with indicators: ''
                                     @ join '', '' (take 3 injury_keywords)
                              else ''Injury claim type identified'']))
                else damage_rule damage description)))"



section \<open>Field extractor (field\_extractor.py): value coercion\<close>

subsection \<open>Amounts\<close>

text \<open>The comparison \<open>a <= b\<close> of two floats.\<close>

fun float_le :: "pyfloat \<Rightarrow> pyfloat \<Rightarrow> bool" where
  "float_le (Fin a) (Fin b) = (a \<le> b)"
| "float_le NaN _ = False"
| "float_le _ NaN = False"
| "float_le NInf _ = True"
| "float_le _ PInf = True"
| "float_le _ _ = False"

text \<open>
  \<open>float(s)\<close> rounds the decimal number to the nearest binary64 value, ties to even:
  a significand of at most 53 bits times a power of two that is at least \<open>2^-1074\<close>;
  a result of \<open>2^1024\<close> or more is the infinity.
\<close>

definition pow2 :: "int \<Rightarrow> rat" where
  "pow2 e = (if 0 \<le> e then 2 ^ nat e else 1 / 2 ^ nat (- e))"

definition ilog2 :: "rat \<Rightarrow> int" where
  "ilog2 x = (let (p, q) = quotient_of x; k = bitlen p - bitlen q
              in if pow2 k \<le> x then k else k - 1)"

definition round_to_double :: "rat \<Rightarrow> pyfloat" where
  "round_to_double x =
     (if x = 0 then Fin 0
      else let a = \<bar>x\<bar>;
               e = max (- 1074) (ilog2 a - 52);
               m = round_half_even (a / pow2 e)
           in if 971 < e \<or> (e = 971 \<and> 2 ^ 53 \<le> m)
              then (if x < 0 then NInf else PInf)
              else Fin ((if x < 0 then - 1 else 1) * of_int m * pow2 e))"

text \<open>
  \<open>float(s)\<close> on a string of digits and decimal points, the only strings that
  \<open>_parse_amount\<close> passes to it: at most one point and at least one digit, or
  \<open>ValueError\<close>.
\<close>

definition digit_value :: "char \<Rightarrow> int" where
  "digit_value c = (case map_of (zip ''0123456789'' [0, 1, 2, 3, 4, 5, 6, 7, 8, 9]) c of
                      Some d \<Rightarrow> d | None \<Rightarrow> 0)"

definition digits_value :: "string \<Rightarrow> int" where
  "digits_value s = foldl (\<lambda>a c. 10 * a + digit_value c) 0 s"

definition float_of_decimal :: "string \<Rightarrow> error + pyfloat" where
  "float_of_decimal s =
     (let ip = takeWhile (\<lambda>c. c \<noteq> CHR ''.'') s;
          rest = dropWhile (\<lambda>c. c \<noteq> CHR ''.'') s;
          fp = tl rest
      in if \<not> list_all is_digit ip \<or> \<not> list_all is_digit fp \<or> (ip = [] \<and> fp = [])
         then Inl ValueError
         else Inr (round_to_double (of_int (digits_value (ip @ fp)) / 10 ^ length fp)))"

text \<open>
  \<open>_parse_amount\<close>: every character other than a digit or a decimal point is removed
  (\<open>re.sub(r'[^\d.]', '', amount_str)\<close>), a non-empty remainder goes to \<open>float\<close>, and the
  bare \<open>except\<close> turns its \<open>ValueError\<close> into the result \<open>0.0\<close>.
\<close>

definition parse_amount :: "string \<Rightarrow> pyfloat" where
  "parse_amount amount_str =
     (let clean_str = filter (\<lambda>c. is_digit c \<or> c = CHR ''.'') amount_str
      in if clean_str \<noteq> [] then
           (case float_of_decimal clean_str of Inr v \<Rightarrow> v | Inl e \<Rightarrow> Fin 0)
         else Fin 0)"

subsection \<open>Descriptions\<close>

text \<open>\<open>re.sub(r'\s+', ' ', s)\<close>: every maximal run of whitespace becomes one space. The
  flag says that the previous character was whitespace.\<close>

fun collapse_from :: "bool \<Rightarrow> string \<Rightarrow> string" where
  "collapse_from prev [] = []"
| "collapse_from prev (c # cs) =
     (if is_space c then (if prev then collapse_from True cs else CHR '' '' # collapse_from True cs)
      else c # collapse_from False cs)"

definition collapse_whitespace :: "string \<Rightarrow> string" where
  "collapse_whitespace s = collapse_from False s"

text \<open>\<open>s.replace(old, new)\<close> for a non-empty \<open>old\<close>: occurrences replaced from the left
  without overlap. The number counts the characters of the occurrence just replaced that
  are still to be skipped.\<close>

fun replace_from :: "string \<Rightarrow> string \<Rightarrow> nat \<Rightarrow> string \<Rightarrow> string" where
  "replace_from old new n [] = []"
| "replace_from old new n (c # cs) =
     (if 0 < n then replace_from old new (n - 1) cs
      else if starts_with old (c # cs) then new @ replace_from old new (length old - 1) cs
      else c # replace_from old new 0 cs)"

definition str_replace :: "string \<Rightarrow> string \<Rightarrow> string \<Rightarrow> string" where
  "str_replace s old new = replace_from old new 0 s"

text \<open>The class \<open>[:\.\-\s]\<close> stripped from both ends of a description.\<close>

definition is_desc_trim :: "char \<Rightarrow> bool" where
  "is_desc_trim c = (c \<in> set '':.-'' \<or> is_space c)"

definition ocr_corrections :: "(string \<times> string) list" where
  "ocr_corrections =
     [(''Iight'', ''light''), (''poIe'', ''pole''), (''Iot'', ''lot''), (''corners'', ''corners'')]"

text \<open>\<open>re.split(r'[.!?]+', s)\<close>: the pieces between maximal runs of sentence terminators.
  The first argument is the piece being read, reversed; the flag says that the previous
  character was a terminator.\<close>

fun split_from :: "string \<Rightarrow> bool \<Rightarrow> string \<Rightarrow> string list" where
  "split_from cur prev [] = [rev cur]"
| "split_from cur prev (c # cs) =
     (if c \<in> set ''.!?'' then (if prev then split_from cur True cs
                                else rev cur # split_from [] True cs)
      else split_from (c # cur) False cs)"

definition split_sentences :: "string \<Rightarrow> string list" where
  "split_sentences s = split_from [] False s"

text \<open>The loop that keeps whole sentences while the running length stays under 1500.\<close>

fun accumulate_sentences :: "string \<Rightarrow> string list \<Rightarrow> string" where
  "accumulate_sentences trimmed [] = trimmed"
| "accumulate_sentences trimmed (sentence # sentences) =
     (if length (trimmed @ sentence) < 1500
      then accumulate_sentences (trimmed @ sentence @ ''.'') sentences
      else trimmed)"

text \<open>
  \<open>_clean_description\<close> up to the length limit: whitespace collapsed, the two \<open>re.sub\<close>
  calls anchored at the start and at the end, and the OCR corrections in table order.
  After the collapse the text has no line break, so \<open>$\<close> is the end of the text.
\<close>

definition tidy_description :: "string \<Rightarrow> string" where
  "tidy_description desc =
     (let d1 = collapse_whitespace (strip desc);
          d2 = dropWhile is_desc_trim d1;
          d3 = rev (dropWhile is_desc_trim (rev d2))
      in foldl (\<lambda>d (wrong, correct). str_replace d wrong correct) d3 ocr_corrections)"

text \<open>The length limit: it applies to a text of more than 2000 characters only.\<close>

definition limit_description :: "string \<Rightarrow> string" where
  "limit_description desc =
     (if 2000 < length desc then
        (let trimmed = accumulate_sentences [] (split_sentences desc)
         in if trimmed \<noteq> [] then trimmed else take 1500 desc @ ''...'')
      else desc)"

definition clean_description :: "string \<Rightarrow> string" where
  "clean_description desc = (if desc = [] then [] else limit_description (tidy_description desc))"

section \<open>Regular expressions (Python's \<open>re\<close>)\<close>

text \<open>
  The patterns of the extractor are kept as syntax trees and run by a backtracking
  matcher that returns every way a pattern can match at a position, in the order in which
  Python's \<open>re\<close> tries them (a greedy repetition tries one more iteration first, a lazy one
  tries to stop first). Every pattern of the extractor has exactly one capturing group,
  so a match state is the rest of the text together with the capture made so far.
  \<open>IGNORECASE\<close>, \<open>MULTILINE\<close> and \<open>DOTALL\<close> are the three flags in use.
\<close>

datatype citem = Ch char | Upper | Lower | Digit | Space

datatype regex =
    Lit string
  | Cls "citem list"
  | Dot
  | Eps
  | Seq regex regex
  | Alt regex regex
  | Rep regex nat "nat option" bool
  | Grp regex
  | Ahead regex
  | Eol
  | EndZ

record flags =
  ignorecase :: bool
  multiline :: bool
  dotall :: bool

type_synonym mstate = "string \<times> string option"

definition newline :: char where
  "newline = CHR 0x0A"

fun in_item :: "citem \<Rightarrow> char \<Rightarrow> bool" where
  "in_item (Ch x) c = (x = c)"
| "in_item Upper c = is_upper c"
| "in_item Lower c = is_lower c"
| "in_item Digit c = is_digit c"
| "in_item Space c = is_space c"

definition in_class :: "bool \<Rightarrow> citem list \<Rightarrow> char \<Rightarrow> bool" where
  "in_class ic items c =
     (list_ex (\<lambda>i. in_item i c) items
      \<or> (ic \<and> (list_ex (\<lambda>i. in_item i (lower_char c)) items
                \<or> list_ex (\<lambda>i. in_item i (upper_char c)) items)))"

fun lit_prefix :: "bool \<Rightarrow> string \<Rightarrow> string \<Rightarrow> string option" where
  "lit_prefix ic [] s = Some s"
| "lit_prefix ic (l # ls) [] = None"
| "lit_prefix ic (l # ls) (c # cs) =
     (if l = c \<or> (ic \<and> lower_char l = lower_char c) then lit_prefix ic ls cs else None)"

text \<open>
  Bounded repetition \<open>{lo,hi}\<close>. The fuel is one more than the length of the rest of the
  text, which no loop over a body that consumes a character can use up.
\<close>

primrec rep :: "nat \<Rightarrow> (mstate \<Rightarrow> mstate list) \<Rightarrow> nat \<Rightarrow> nat option \<Rightarrow> bool
                  \<Rightarrow> mstate \<Rightarrow> mstate list" where
  "rep 0 body lo hi greedy st = (if lo = 0 then [st] else [])"
| "rep (Suc fuel) body lo hi greedy st =
     (let more = (if hi = Some 0 then []
                  else concat (map (rep fuel body (lo - 1) (map_option (\<lambda>h. h - 1) hi) greedy)
                                   (body st)));
          stop = (if lo = 0 then [st] else [])
      in if greedy then more @ stop else stop @ more)"

primrec matches :: "flags \<Rightarrow> regex \<Rightarrow> mstate \<Rightarrow> mstate list" where
  "matches f (Lit l) st =
     (case lit_prefix (ignorecase f) l (fst st) of None \<Rightarrow> [] | Some s' \<Rightarrow> [(s', snd st)])"
| "matches f (Cls items) st =
     (case fst st of [] \<Rightarrow> []
      | c # cs \<Rightarrow> if in_class (ignorecase f) items c then [(cs, snd st)] else [])"
| "matches f Dot st =
     (case fst st of [] \<Rightarrow> []
      | c # cs \<Rightarrow> if dotall f \<or> c \<noteq> newline then [(cs, snd st)] else [])"
| "matches f Eps st = [st]"
| "matches f (Seq a b) st = concat (map (matches f b) (matches f a st))"
| "matches f (Alt a b) st = matches f a st @ matches f b st"
| "matches f (Rep r lo hi greedy) st =
     rep (Suc (length (fst st))) (matches f r) lo hi greedy st"
| "matches f (Grp r) st =
     map (\<lambda>st'. (fst st', Some (take (length (fst st) - length (fst st')) (fst st))))
         (matches f r st)"
| "matches f (Ahead r) st = (if matches f r st = [] then [] else [st])"
| "matches f Eol st =
     (if fst st = [] \<or> (if multiline f then hd (fst st) = newline else fst st = [newline])
      then [st] else [])"
| "matches f EndZ st = (if fst st = [] then [st] else [])"

text \<open>\<open>re.search\<close>: the first match at the leftmost position that has one, as the matched
  text (\<open>group(0)\<close>) and the capture (\<open>group(1)\<close>).\<close>

fun re_search :: "flags \<Rightarrow> regex \<Rightarrow> string \<Rightarrow> (string \<times> string option) option" where
  "re_search f r [] =
     (case matches f r ([], None) of [] \<Rightarrow> None | st # _ \<Rightarrow> Some ([], snd st))"
| "re_search f r (c # cs) =
     (case matches f r (c # cs, None) of
        [] \<Rightarrow> re_search f r cs
      | st # _ \<Rightarrow> Some (take (length (c # cs) - length (fst st)) (c # cs), snd st))"

fun seqs :: "regex list \<Rightarrow> regex" where
  "seqs [] = Eps"
| "seqs [r] = r"
| "seqs (r # rs) = Seq r (seqs rs)"

fun alts :: "regex list \<Rightarrow> regex" where
  "alts [] = Eps"
| "alts [r] = r"
| "alts (r # rs) = Alt r (alts rs)"

definition many :: "regex \<Rightarrow> regex" where "many r = Rep r 0 None True"
definition many1 :: "regex \<Rightarrow> regex" where "many1 r = Rep r 1 None True"
definition optional :: "regex \<Rightarrow> regex" where "optional r = Rep r 0 (Some 1) True"
definition lazy_many :: "regex \<Rightarrow> regex" where "lazy_many r = Rep r 0 None False"
definition lazy_many1 :: "regex \<Rightarrow> regex" where "lazy_many1 r = Rep r 1 None False"
definition exactly :: "nat \<Rightarrow> regex \<Rightarrow> regex" where "exactly n r = Rep r n (Some n) True"
definition at_least :: "nat \<Rightarrow> regex \<Rightarrow> regex" where "at_least n r = Rep r n None True"
definition between :: "nat \<Rightarrow> nat \<Rightarrow> regex \<Rightarrow> regex" where
  "between lo hi r = Rep r lo (Some hi) True"

text \<open>The flag combinations in use.\<close>

definition FLAGS_IM :: flags where
  "FLAGS_IM = \<lparr>ignorecase = True, multiline = True, dotall = False\<rparr>"

definition FLAGS_IS :: flags where
  "FLAGS_IS = \<lparr>ignorecase = True, multiline = False, dotall = True\<rparr>"

definition FLAGS_I :: flags where
  "FLAGS_I = \<lparr>ignorecase = True, multiline = False, dotall = False\<rparr>"

definition FLAGS_NONE :: flags where
  "FLAGS_NONE = \<lparr>ignorecase = False, multiline = False, dotall = False\<rparr>"

text \<open>
  \<open>re.sub(pattern, repl, s)\<close> for a pattern that cannot match the empty string: matches
  are replaced from the left without overlap. The number counts the characters of the
  match just replaced that are still to be skipped.
\<close>

fun sub_from :: "flags \<Rightarrow> regex \<Rightarrow> string \<Rightarrow> nat \<Rightarrow> string \<Rightarrow> string" where
  "sub_from f r repl n [] = []"
| "sub_from f r repl n (c # cs) =
     (if 0 < n then sub_from f r repl (n - 1) cs
      else (case matches f r (c # cs, None) of
              [] \<Rightarrow> c # sub_from f r repl 0 cs
            | st # _ \<Rightarrow>
                if fst st = c # cs then repl @ c # sub_from f r repl 0 cs
                else repl @ sub_from f r repl (length cs - length (fst st)) cs))"

definition re_sub :: "flags \<Rightarrow> regex \<Rightarrow> string \<Rightarrow> string \<Rightarrow> string" where
  "re_sub f r repl s = sub_from f r repl 0 s"

section \<open>Field extractor (field\_extractor.py): patterns\<close>

text \<open>
  An entry of a pattern list: a pattern, or one that \<open>re\<close> refuses to compile. The
  refusal is raised inside the \<open>try\<close> of \<open>_extract_with_patterns\<close>, which goes on with the
  next pattern.
\<close>

datatype pattern = Pat regex | Invalid

definition ws :: regex where "ws = Cls [Space]"
definition digit :: regex where "digit = Cls [Digit]"
definition nl :: regex where "nl = Lit [newline]"

text \<open>\<^verbatim>\<open>[:\s]+\<close> and \<^verbatim>\<open>[:\s]*\<close>\<close>

definition sep1 :: regex where "sep1 = many1 (Cls [Ch CHR '':'', Space])"
definition sep0 :: regex where "sep0 = many (Cls [Ch CHR '':'', Space])"

text \<open>\<^verbatim>\<open>([A-Z0-9\-_]+[A-Z0-9])(?=\s|$|\n)\<close>\<close>

definition policy_id :: regex where
  "policy_id =
     Seq (Grp (Seq (many1 (Cls [Upper, Digit, Ch CHR ''-'', Ch CHR ''_''])) (Cls [Upper, Digit])))
         (Ahead (alts [ws, Eol, nl]))"

text \<open>
  \<^verbatim>\<open>Policy\s*Number[:\s]+([A-Z0-9\-_]+[A-Z0-9])(?=\s|$|\n)\<close>,
  \<^verbatim>\<open>POLICY\s*NUMBER[:\s]+([A-Z0-9\-_]+[A-Z0-9])(?=\s|$|\n)\<close>,
  \<^verbatim>\<open>Policy\s*#[:\s]+([A-Z0-9\-_]+[A-Z0-9])(?=\s|$|\n)\<close>,
  \<^verbatim>\<open>POLICY[:\s]+([A-Z0-9\-_]+[A-Z0-9])(?=\s|$|\n)\<close>,
  \<^verbatim>\<open>(?<=\bPolicy(?: Number|#| No\.?)?[:\s])([A-Z0-9\-_]+[A-Z0-9])\<close>: its look-behind
  has no fixed width, which \<open>re\<close> rejects.
\<close>

definition policy_number_patterns :: "pattern list" where
  "policy_number_patterns =
     [Pat (seqs [Lit ''Policy'', many ws, Lit ''Number'', sep1, policy_id]),
      Pat (seqs [Lit ''POLICY'', many ws, Lit ''NUMBER'', sep1, policy_id]),
      Pat (seqs [Lit ''Policy'', many ws, Lit ''#'', sep1, policy_id]),
      Pat (seqs [Lit ''POLICY'', sep1, policy_id]),
      Invalid]"

text \<open>\<^verbatim>\<open>([A-Z][a-zA-Z\s]+?)\<close>, \<^verbatim>\<open>(?=\s*\n|\s*$)\<close>\<close>

definition name_group :: regex where
  "name_group = Grp (Seq (Cls [Upper]) (lazy_many1 (Cls [Lower, Upper, Space])))"

definition line_end :: regex where
  "line_end = Ahead (Alt (Seq (many ws) nl) (Seq (many ws) Eol))"

text \<open>
  \<^verbatim>\<open>Policyholder\s*Name[:\s]+([A-Z][a-zA-Z\s]+?)(?=\s*\n|\s*$|\s*[A-Z])\<close>,
  \<^verbatim>\<open>NAME\s*OF\s*INSURED[:\s]+([A-Z][a-zA-Z\s]+?)(?=\s*\n|\s*$)\<close>,
  \<^verbatim>\<open>Named\s*Insured[:\s]+([A-Z][a-zA-Z\s]+?)(?=\s*\n|\s*$)\<close>,
  \<^verbatim>\<open>Insured\s*Name[:\s]+([A-Z][a-zA-Z\s]+?)(?=\s*\n|\s*$)\<close>,
  \<^verbatim>\<open>Name[:\s]+([A-Z][a-zA-Z\s]+?)(?=\s*\n|\s*[0-9]|\s*[A-Z]{2,})\<close>,
  \<^verbatim>\<open>CLAIMANT[:\s]+([A-Z][a-zA-Z\s]+?)(?=\s*\n|\s*$)\<close>
\<close>

definition policyholder_name_patterns :: "pattern list" where
  "policyholder_name_patterns =
     [Pat (seqs [Lit ''Policyholder'', many ws, Lit ''Name'', sep1, name_group,
                 Ahead (alts [Seq (many ws) nl, Seq (many ws) Eol, Seq (many ws) (Cls [Upper])])]),
      Pat (seqs [Lit ''NAME'', many ws, Lit ''OF'', many ws, Lit ''INSURED'', sep1, name_group,
                 line_end]),
      Pat (seqs [Lit ''Named'', many ws, Lit ''Insured'', sep1, name_group, line_end]),
      Pat (seqs [Lit ''Insured'', many ws, Lit ''Name'', sep1, name_group, line_end]),
      Pat (seqs [Lit ''Name'', sep1, name_group,
                 Ahead (alts [Seq (many ws) nl, Seq (many ws) digit,
                              Seq (many ws) (at_least 2 (Cls [Upper]))])]),
      Pat (seqs [Lit ''CLAIMANT'', sep1, name_group, line_end])]"

text \<open>\<^verbatim>\<open>([0-9]{1,2}/[0-9]{1,2}/[0-9]{4})\<close> and \<^verbatim>\<open>([A-Z][a-z]+\s+\d{1,2},\s+\d{4})\<close>\<close>

definition slash_date :: regex where
  "slash_date = Grp (seqs [between 1 2 digit, Lit ''/'', between 1 2 digit, Lit ''/'',
                          exactly 4 digit])"

definition month_date :: regex where
  "month_date = Grp (seqs [Cls [Upper], many1 (Cls [Lower]), many1 ws, between 1 2 digit,
                          Lit '','', many1 ws, exactly 4 digit])"

text \<open>
  \<^verbatim>\<open>Effective\s*Date[:\s]+([0-9]{1,2}/[0-9]{1,2}/[0-9]{4})\<close>,
  \<^verbatim>\<open>Policy\s*Period[:\s]+([0-9]{1,2}/[0-9]{1,2}/[0-9]{4})\<close>,
  \<^verbatim>\<open>Coverage\s*Dates[:\s]+([0-9]{1,2}/[0-9]{1,2}/[0-9]{4})\<close>
\<close>

definition effective_dates_patterns :: "pattern list" where
  "effective_dates_patterns =
     [Pat (seqs [Lit ''Effective'', many ws, Lit ''Date'', sep1, slash_date]),
      Pat (seqs [Lit ''Policy'', many ws, Lit ''Period'', sep1, slash_date]),
      Pat (seqs [Lit ''Coverage'', many ws, Lit ''Dates'', sep1, slash_date])]"

text \<open>
  \<^verbatim>\<open>Date\s*of\s*Loss[:\s]+([A-Z][a-z]+\s+\d{1,2},\s+\d{4})\<close>,
  \<^verbatim>\<open>DATE\s*OF\s*LOSS[:\s]+([0-9]{1,2}/[0-9]{1,2}/[0-9]{4})\<close>,
  \<^verbatim>\<open>Date[:\s]+([A-Z][a-z]+\s+\d{1,2},\s+\d{4})\<close>,
  \<^verbatim>\<open>Loss\s*Date[:\s]+([0-9]{1,2}/[0-9]{1,2}/[0-9]{4})\<close>,
  \<^verbatim>\<open>Incident\s*Date[:\s]+([0-9]{1,2}/[0-9]{1,2}/[0-9]{4})\<close>
\<close>

definition date_of_loss_patterns :: "pattern list" where
  "date_of_loss_patterns =
     [Pat (seqs [Lit ''Date'', many ws, Lit ''of'', many ws, Lit ''Loss'', sep1, month_date]),
      Pat (seqs [Lit ''DATE'', many ws, Lit ''OF'', many ws, Lit ''LOSS'', sep1, slash_date]),
      Pat (seqs [Lit ''Date'', sep1, month_date]),
      Pat (seqs [Lit ''Loss'', many ws, Lit ''Date'', sep1, slash_date]),
      Pat (seqs [Lit ''Incident'', many ws, Lit ''Date'', sep1, slash_date])]"

text \<open>\<^verbatim>\<open>(\d{1,2}:\d{2}\s*[AP]M)\<close>\<close>

definition clock :: regex where
  "clock = Grp (seqs [between 1 2 digit, Lit '':'', exactly 2 digit, many ws,
                     Cls [Ch CHR ''A'', Ch CHR ''P''], Lit ''M''])"

text \<open>
  \<^verbatim>\<open>Time[:\s]+(\d{1,2}:\d{2}\s*[AP]M)\<close>,
  \<^verbatim>\<open>Time\s*of\s*Loss[:\s]+(\d{1,2}:\d{2}\s*[AP]M)\<close>,
  \<^verbatim>\<open>(\d{1,2}:\d{2}\s*[AP]M)(?=\s*on|\s*date)\<close>
\<close>

definition time_of_loss_patterns :: "pattern list" where
  "time_of_loss_patterns =
     [Pat (seqs [Lit ''Time'', sep1, clock]),
      Pat (seqs [Lit ''Time'', many ws, Lit ''of'', many ws, Lit ''Loss'', sep1, clock]),
      Pat (Seq clock (Ahead (Alt (Seq (many ws) (Lit ''on'')) (Seq (many ws) (Lit ''date'')))))]"

text \<open>\<^verbatim>\<open>(.*?)(?=\s*\n[A-Z]|\s*\n\d|\s*$)\<close>\<close>

definition location_value :: regex where
  "location_value =
     Seq (Grp (lazy_many Dot))
         (Ahead (alts [seqs [many ws, nl, Cls [Upper]], seqs [many ws, nl, digit],
                       Seq (many ws) Eol]))"

text \<open>
  \<^verbatim>\<open>Location[:\s]+(.*?)(?=\s*\n[A-Z]|\s*\n\d|\s*$)\<close>,
  \<^verbatim>\<open>LOCATION\s*OF\s*LOSS[:\s]+(.*?)(?=\s*\n[A-Z]|\s*\n\d|\s*$)\<close>,
  \<^verbatim>\<open>Address[:\s]+(.*?)(?=\s*\n[A-Z]|\s*\n\d|\s*$)\<close>,
  \<^verbatim>\<open>STREET[:\s]+(.*?)(?=\s*\n[A-Z]|\s*\n\d|\s*$)\<close>
\<close>

definition location_patterns :: "pattern list" where
  "location_patterns =
     [Pat (seqs [Lit ''Location'', sep1, location_value]),
      Pat (seqs [Lit ''LOCATION'', many ws, Lit ''OF'', many ws, Lit ''LOSS'', sep1,
                 location_value]),
      Pat (seqs [Lit ''Address'', sep1, location_value]),
      Pat (seqs [Lit ''STREET'', sep1, location_value])]"

text \<open>\<^verbatim>\<open>(.*?)(?=\n[A-Z]{2,}|\n\d|\n\n|\Z)\<close>\<close>

definition description_value :: regex where
  "description_value =
     Seq (Grp (lazy_many Dot))
         (Ahead (alts [Seq nl (at_least 2 (Cls [Upper])), Seq nl digit, Seq nl nl, EndZ]))"

text \<open>
  \<^verbatim>\<open>Description[:\s]+(.*?)(?=\n[A-Z]{2,}|\n\d|\n\n|\Z)\<close>,
  \<^verbatim>\<open>DESCRIPTION[:\s]+(.*?)(?=\n[A-Z]{2,}|\n\d|\n\n|\Z)\<close>,
  \<^verbatim>\<open>Loss\s*Description[:\s]+(.*?)(?=\n[A-Z]{2,}|\n\d|\n\n|\Z)\<close>,
  \<^verbatim>\<open>Remarks[:\s]+(.*?)(?=\n[A-Z]{2,}|\n\d|\n\n|\Z)\<close>,
  \<^verbatim>\<open>DESCRIPTION\s*OF\s*(?:ACCIDENT|LOSS|INCIDENT)[:\s]+(.*?)(?=\n1\.|\n[A-Z]{2,}|\n\d|\Z)\<close>
\<close>

definition description_patterns :: "pattern list" where
  "description_patterns =
     [Pat (seqs [Lit ''Description'', sep1, description_value]),
      Pat (seqs [Lit ''DESCRIPTION'', sep1, description_value]),
      Pat (seqs [Lit ''Loss'', many ws, Lit ''Description'', sep1, description_value]),
      Pat (seqs [Lit ''Remarks'', sep1, description_value]),
      Pat (seqs [Lit ''DESCRIPTION'', many ws, Lit ''OF'', many ws,
                 alts [Lit ''ACCIDENT'', Lit ''LOSS'', Lit ''INCIDENT''], sep1,
                 Grp (lazy_many Dot),
                 Ahead (alts [Seq nl (Lit ''1.''), Seq nl (at_least 2 (Cls [Upper])),
                              Seq nl digit, EndZ])])]"

text \<open>
  \<^verbatim>\<open>Vehicle\s*Type[:\s]+([A-Za-z\s]+)\<close>,
  \<^verbatim>\<open>Asset\s*Type[:\s]+([A-Za-z\s]+)\<close>,
  \<^verbatim>\<open>Type\s*of\s*Vehicle[:\s]+([A-Za-z\s]+)\<close>
\<close>

definition asset_type_patterns :: "pattern list" where
  "asset_type_patterns =
     [Pat (seqs [Lit ''Vehicle'', many ws, Lit ''Type'', sep1,
                 Grp (many1 (Cls [Upper, Lower, Space]))]),
      Pat (seqs [Lit ''Asset'', many ws, Lit ''Type'', sep1,
                 Grp (many1 (Cls [Upper, Lower, Space]))]),
      Pat (seqs [Lit ''Type'', many ws, Lit ''of'', many ws, Lit ''Vehicle'', sep1,
                 Grp (many1 (Cls [Upper, Lower, Space]))])]"

text \<open>
  \<^verbatim>\<open>V\.I\.N\.\s*[:\s]+([A-Z0-9]{17})\<close>,
  \<^verbatim>\<open>VIN[:\s]+([A-Z0-9]{17})\<close>,
  \<^verbatim>\<open>Vehicle\s*ID[:\s]+([A-Z0-9]+)\<close>
\<close>

definition asset_id_patterns :: "pattern list" where
  "asset_id_patterns =
     [Pat (seqs [Lit ''V.I.N.'', many ws, sep1, Grp (exactly 17 (Cls [Upper, Digit]))]),
      Pat (seqs [Lit ''VIN'', sep1, Grp (exactly 17 (Cls [Upper, Digit]))]),
      Pat (seqs [Lit ''Vehicle'', many ws, Lit ''ID'', sep1, Grp (many1 (Cls [Upper, Digit]))])]"

text \<open>\<^verbatim>\<open>([0-9,]+\.?[0-9]*)\<close> and \<^verbatim>\<open>[:\s]+\$?\s*([0-9,]+\.?[0-9]*)\<close>\<close>

definition amount_group :: regex where
  "amount_group = Grp (seqs [many1 (Cls [Digit, Ch CHR '','']), optional (Lit ''.''), many digit])"

definition amount_value :: regex where
  "amount_value = seqs [sep1, optional (Lit ''$''), many ws, amount_group]"

text \<open>
  \<^verbatim>\<open>Damage\s*Estimate[:\s]+\$?\s*([0-9,]+\.?[0-9]*)\<close>,
  \<^verbatim>\<open>ESTIMATE\s*AMOUNT[:\s]+\$?\s*([0-9,]+\.?[0-9]*)\<close>,
  \<^verbatim>\<open>Estimated\s*Damage[:\s]+\$?\s*([0-9,]+\.?[0-9]*)\<close>,
  \<^verbatim>\<open>Amount[:\s]+\$?\s*([0-9,]+\.?[0-9]*)\<close>,
  \<^verbatim>\<open>(?:Estimate|Damage|Amount)[:\s]+\$?\s*([0-9,]+\.?[0-9]*)\<close>
\<close>

definition estimated_damage_patterns :: "pattern list" where
  "estimated_damage_patterns =
     [Pat (seqs [Lit ''Damage'', many ws, Lit ''Estimate'', amount_value]),
      Pat (seqs [Lit ''ESTIMATE'', many ws, Lit ''AMOUNT'', amount_value]),
      Pat (seqs [Lit ''Estimated'', many ws, Lit ''Damage'', amount_value]),
      Pat (seqs [Lit ''Amount'', amount_value]),
      Pat (seqs [alts [Lit ''Estimate'', Lit ''Damage'', Lit ''Amount''], amount_value])]"

text \<open>
  \<^verbatim>\<open>ESTIMATE\s*AMOUNT[:\s]+\$?\s*([0-9,]+\.?[0-9]*)\<close>,
  \<^verbatim>\<open>Damage\s*Estimate[:\s]+\$?\s*([0-9,]+\.?[0-9]*)\<close>,
  \<^verbatim>\<open>Estimated\s*Damage[:\s]+\$?\s*([0-9,]+\.?[0-9]*)\<close>,
  \<^verbatim>\<open>\$([0-9,]+\.?[0-9]*)\<close>
\<close>

definition dollar_amount :: regex where
  "dollar_amount = Seq (Lit ''$'') amount_group"

definition estimate_amount_patterns :: "pattern list" where
  "estimate_amount_patterns =
     [Pat (seqs [Lit ''ESTIMATE'', many ws, Lit ''AMOUNT'', amount_value]),
      Pat (seqs [Lit ''Damage'', many ws, Lit ''Estimate'', amount_value]),
      Pat (seqs [Lit ''Estimated'', many ws, Lit ''Damage'', amount_value]),
      Pat dollar_amount]"

text \<open>
  \<^verbatim>\<open>Claimant[:\s]+([A-Z][a-zA-Z\s]+?)(?=\s*\n|\s*$)\<close>,
  \<^verbatim>\<open>Driver\s*Name[:\s]+([A-Z][a-zA-Z\s]+?)(?=\s*\n|\s*$)\<close>,
  \<^verbatim>\<open>NAME\s*OF\s*CONTACT[:\s]+([A-Z][a-zA-Z\s]+?)(?=\s*\n|\s*$)\<close>
\<close>

definition claimant_patterns :: "pattern list" where
  "claimant_patterns =
     [Pat (seqs [Lit ''Claimant'', sep1, name_group, line_end]),
      Pat (seqs [Lit ''Driver'', many ws, Lit ''Name'', sep1, name_group, line_end]),
      Pat (seqs [Lit ''NAME'', many ws, Lit ''OF'', many ws, Lit ''CONTACT'', sep1, name_group,
                 line_end])]"

text \<open>
  \<^verbatim>\<open>(?:\(?[A-Z]?\)?\s*)?([0-9\-\(\)\.\s]{10,})\<close> and
  \<^verbatim>\<open>([A-Za-z0-9._%+-]+@[A-Za-z0-9.-]+\.[A-Z|a-z]{2,})\<close>
\<close>

definition phone_value :: regex where
  "phone_value =
     Seq (optional (seqs [optional (Lit ''(''), optional (Cls [Upper]), optional (Lit '')''),
                          many ws]))
         (Grp (at_least 10 (Cls [Digit, Ch CHR ''-'', Ch CHR ''('', Ch CHR '')'', Ch CHR ''.'',
                                 Space])))"

definition email_chars :: "citem list" where
  "email_chars = [Upper, Lower, Digit, Ch CHR ''.'', Ch CHR ''_'', Ch CHR ''%'', Ch CHR ''+'',
                  Ch CHR ''-'']"

definition email_value :: regex where
  "email_value =
     Grp (seqs [many1 (Cls email_chars), Lit ''@'',
                many1 (Cls [Upper, Lower, Digit, Ch CHR ''.'', Ch CHR ''-'']), Lit ''.'',
                at_least 2 (Cls [Upper, Ch CHR ''|'', Lower])])"

text \<open>
  \<^verbatim>\<open>Phone[:\s]+(?:\(?[A-Z]?\)?\s*)?([0-9\-\(\)\.\s]{10,})\<close>,
  \<^verbatim>\<open>PHONE[:\s]+(?:\(?[A-Z]?\)?\s*)?([0-9\-\(\)\.\s]{10,})\<close>,
  \<^verbatim>\<open>Contact[:\s]+(?:\(?[A-Z]?\)?\s*)?([0-9\-\(\)\.\s]{10,})\<close>,
  \<^verbatim>\<open>E-MAIL[:\s]+([A-Za-z0-9._%+-]+@[A-Za-z0-9.-]+\.[A-Z|a-z]{2,})\<close>,
  \<^verbatim>\<open>Email[:\s]+([A-Za-z0-9._%+-]+@[A-Za-z0-9.-]+\.[A-Z|a-z]{2,})\<close>
\<close>

definition contact_details_patterns :: "pattern list" where
  "contact_details_patterns =
     [Pat (seqs [Lit ''Phone'', sep1, phone_value]),
      Pat (seqs [Lit ''PHONE'', sep1, phone_value]),
      Pat (seqs [Lit ''Contact'', sep1, phone_value]),
      Pat (seqs [Lit ''E-MAIL'', sep1, email_value]),
      Pat (seqs [Lit ''Email'', sep1, email_value])]"

text \<open>
  \<^verbatim>\<open>Attachments[:\s]+(.*?)(?=\s*\n|\s*$)\<close>,
  \<^verbatim>\<open>Documents\s*Attached[:\s]+(.*?)(?=\s*\n|\s*$)\<close>,
  \<^verbatim>\<open>Photos[:\s]+(.*?)(?=\s*\n|\s*$)\<close>
\<close>

definition attachments_patterns :: "pattern list" where
  "attachments_patterns =
     [Pat (seqs [Lit ''Attachments'', sep1, Grp (lazy_many Dot), line_end]),
      Pat (seqs [Lit ''Documents'', many ws, Lit ''Attached'', sep1, Grp (lazy_many Dot),
                 line_end]),
      Pat (seqs [Lit ''Photos'', sep1, Grp (lazy_many Dot), line_end])]"

text \<open>
  \<^verbatim>\<open>Initial\s*Estimate[:\s]+\$?\s*([0-9,]+\.?[0-9]*)\<close>,
  \<^verbatim>\<open>Initial\s*Assessment[:\s]+\$?\s*([0-9,]+\.?[0-9]*)\<close>
\<close>

definition initial_estimate_patterns :: "pattern list" where
  "initial_estimate_patterns =
     [Pat (seqs [Lit ''Initial'', many ws, Lit ''Estimate'', amount_value]),
      Pat (seqs [Lit ''Initial'', many ws, Lit ''Assessment'', amount_value])]"

text \<open>The table \<open>PATTERNS\<close>, in the order of the dictionary.\<close>

definition PATTERNS :: "(string \<times> pattern list) list" where
  "PATTERNS =
     [(''policy_number'', policy_number_patterns),
      (''policyholder_name'', policyholder_name_patterns),
      (''effective_dates'', effective_dates_patterns),
      (''date_of_loss'', date_of_loss_patterns),
      (''time_of_loss'', time_of_loss_patterns),
      (''location'', location_patterns),
      (''description'', description_patterns),
      (''asset_type'', asset_type_patterns),
      (''asset_id'', asset_id_patterns),
      (''estimated_damage'', estimated_damage_patterns),
      (''estimate_amount'', estimate_amount_patterns),
      (''claimant'', claimant_patterns),
      (''contact_details'', contact_details_patterns),
      (''attachments'', attachments_patterns),
      (''initial_estimate'', initial_estimate_patterns)]"

section \<open>Field extractor (field\_extractor.py): extraction\<close>

subsection \<open>Text normalisation\<close>

text \<open>\<^verbatim>\<open>re.sub(r' {2,}', ' ', text)\<close>: a run of two or more blanks becomes one blank.\<close>

fun collapse_blanks :: "bool \<Rightarrow> string \<Rightarrow> string" where
  "collapse_blanks prev [] = []"
| "collapse_blanks prev (c # cs) =
     (if c = CHR '' '' then (if prev then collapse_blanks True cs
                             else c # collapse_blanks True cs)
      else c # collapse_blanks False cs)"

text \<open>\<^verbatim>\<open>re.sub(r'\n{3,}', '\n\n', text)\<close>: of a run of line feeds at most two are kept. The
  number counts the line feeds kept of the current run.\<close>

fun limit_newlines :: "nat \<Rightarrow> string \<Rightarrow> string" where
  "limit_newlines k [] = []"
| "limit_newlines k (c # cs) =
     (if c = newline then (if 2 \<le> k then limit_newlines k cs
                           else c # limit_newlines (Suc k) cs)
      else c # limit_newlines 0 cs)"

text \<open>\<open>_normalize_text\<close>; \<open>None\<close> and the empty string are both falsy.\<close>

definition normalize_text :: "string option \<Rightarrow> string" where
  "normalize_text text =
     (case text of
        None \<Rightarrow> []
      | Some t \<Rightarrow>
          if t = [] then []
          else strip (limit_newlines 0
                        (str_replace (collapse_blanks False t) [CHR 0x0D, newline] [newline])))"

subsection \<open>Value cleaning\<close>

text \<open>
  \<open>_parse_date\<close>. The calendar library is a parameter: \<open>strptime fmt s\<close> is \<open>Some d\<close> when
  \<open>datetime.strptime(s, fmt)\<close> succeeds and \<open>d\<close> is that date printed by
  \<open>strftime('%Y-%m-%d')\<close>, and \<open>None\<close> when it raises.
\<close>

definition date_formats :: "string list" where
  "date_formats =
     [''%B %d, %Y'', ''%b %d, %Y'', ''%B %d, %Y %I:%M %p'', ''%m/%d/%Y'', ''%m/%d/%y'',
      ''%d/%m/%Y'', ''%d/%m/%y'', ''%Y-%m-%d'', ''%d-%m-%Y'']"

fun try_formats :: "(string \<Rightarrow> string \<Rightarrow> string option) \<Rightarrow> string list \<Rightarrow> string \<Rightarrow> string" where
  "try_formats strptime [] date_str = date_str"
| "try_formats strptime (fmt # fmts) date_str =
     (case strptime fmt date_str of
        Some d \<Rightarrow> d
      | None \<Rightarrow> try_formats strptime fmts date_str)"

definition parse_date :: "(string \<Rightarrow> string \<Rightarrow> string option) \<Rightarrow> string \<Rightarrow> string" where
  "parse_date strptime date_str = try_formats strptime date_formats date_str"

text \<open>
  The two substitutions on names: \<^verbatim>\<open>\s+[A-Z]\.?$\<close> without flags and
  \<^verbatim>\<open>\s+(?:JR|SR|II|III|IV|V)$\<close> with \<open>IGNORECASE\<close>.
\<close>

definition trailing_initial :: regex where
  "trailing_initial = seqs [many1 ws, Cls [Upper], optional (Lit ''.''), Eol]"

definition trailing_suffix :: regex where
  "trailing_suffix =
     seqs [many1 ws, alts [Lit ''JR'', Lit ''SR'', Lit ''II'', Lit ''III'', Lit ''IV'', Lit ''V''],
           Eol]"

text \<open>\<open>_clean_field_value\<close>; the result \<open>None\<close> is \<open>PNone\<close>.\<close>

definition clean_field_value ::
    "(string \<Rightarrow> string \<Rightarrow> string option) \<Rightarrow> string \<Rightarrow> string \<Rightarrow> pyval" where
  "clean_field_value strptime value field_name =
     (if value = [] then PNone
      else
        (let v = collapse_whitespace (strip value)
         in if field_name \<in> set [''estimated_damage'', ''initial_estimate'', ''estimate_amount'']
              then PFloat (parse_amount v)
            else if field_name \<in> set [''date_of_loss''] then PStr (parse_date strptime v)
            else if field_name \<in> set [''policy_number'', ''asset_id''] then PStr (upper v)
            else if field_name \<in> set [''description''] then PStr (clean_description v)
            else if field_name \<in> set [''policyholder_name'', ''claimant'']
              then PStr (re_sub FLAGS_I trailing_suffix []
                           (re_sub FLAGS_NONE trailing_initial [] v))
            else PStr v))"

text \<open>
  \<open>_extract_with_patterns\<close>: the first pattern that matches with a capture that is not
  blank decides; a pattern that does not match, matches with a blank capture, or does not
  compile is passed over.
\<close>

fun extract_with_patterns ::
    "(string \<Rightarrow> string \<Rightarrow> string option) \<Rightarrow> string \<Rightarrow> pattern list \<Rightarrow> string \<Rightarrow> pyval" where
  "extract_with_patterns strptime text [] field_name = PNone"
| "extract_with_patterns strptime text (Invalid # patterns) field_name =
     extract_with_patterns strptime text patterns field_name"
| "extract_with_patterns strptime text (Pat r # patterns) field_name =
     (case re_search FLAGS_IM r text of
        Some (whole, Some captured) \<Rightarrow>
          if captured \<noteq> [] \<and> strip captured \<noteq> []
          then clean_field_value strptime (strip captured) field_name
          else extract_with_patterns strptime text patterns field_name
      | _ \<Rightarrow> extract_with_patterns strptime text patterns field_name)"

text \<open>The loop over \<open>PATTERNS\<close> in \<open>extract_all_fields\<close>: a field is stored \<open>if value\<close>.\<close>

fun extract_patterns ::
    "(string \<Rightarrow> string \<Rightarrow> string option) \<Rightarrow> string \<Rightarrow> (string \<times> pattern list) list
       \<Rightarrow> fields \<Rightarrow> fields" where
  "extract_patterns strptime text [] results = results"
| "extract_patterns strptime text ((field, patterns) # rest) results =
     (let value = extract_with_patterns strptime text patterns field
      in extract_patterns strptime text rest
           (if truthy value then results(field \<mapsto> value) else results))"

subsection \<open>Inference and substructures\<close>

text \<open>\<open>_infer_claim_type\<close>.\<close>

definition any_in :: "string list \<Rightarrow> string \<Rightarrow> bool" where
  "any_in keywords s = list_ex (\<lambda>keyword. str_in keyword s) keywords"

definition infer_claim_type :: "string \<Rightarrow> string" where
  "infer_claim_type description =
     (if description = [] then ''property_damage''
      else
        (let desc_lower = lower description
         in if any_in [''injury'', ''injured'', ''hurt'', ''pain'', ''hospital'', ''ambulance'',
                       ''medical'', ''whiplash'', ''fracture'', ''broken bone'', ''concussion'',
                       ''emergency room'', ''er''] desc_lower
              then ''injury''
            else if any_in [''stolen'', ''theft'', ''robbery'', ''burglary'', ''break-in'',
                            ''missing vehicle'', ''car stolen'', ''auto theft''] desc_lower
              then ''theft''
            else if any_in [''fire'', ''burned'', ''arson'', ''smoke'', ''flame'', ''ignite'']
                      desc_lower
              then ''fire''
            else if any_in [''flood'', ''water'', ''leak'', ''pipe burst'', ''rain'', ''storm'',
                            ''hurricane'', ''flooding''] desc_lower
              then ''water_damage''
            else if any_in [''vandal'', ''graffiti'', ''broken window'', ''keyed'', ''scratched'',
                            ''malicious'', ''intentional''] desc_lower
              then ''vandalism''
            else if any_in [''vehicle'', ''car'', ''truck'', ''auto'', ''accident'', ''collision'',
                            ''crash'', ''wreck'', ''rear-end'', ''bumper''] desc_lower
              then ''vehicle_damage''
            else ''property_damage''))"

text \<open>
  \<open>_extract_vehicle_info\<close>. Section patterns, with \<open>IGNORECASE | DOTALL\<close>:
  \<^verbatim>\<open>VEH\s*#.*?DESCRIBE DAMAGE\<close>, \<^verbatim>\<open>VEHICLE INFORMATION.*?DESCRIBE DAMAGE\<close>,
  \<^verbatim>\<open>YEAR.*?MAKE.*?MODEL.*?VIN\<close>. Inside the section, with \<open>IGNORECASE\<close>:
  \<^verbatim>\<open>YEAR\s*[:\s]*([0-9]{4})\<close>, \<^verbatim>\<open>MAKE\s*[:\s]*([A-Za-z\s]+)\<close>,
  \<^verbatim>\<open>MODEL\s*[:\s]*([A-Za-z0-9\s\-]+)\<close>, \<^verbatim>\<open>V\.?I\.?N\.?\s*[:\s]*([A-Z0-9]{17})\<close>,
  \<^verbatim>\<open>PLATE\s*(?:NUMBER|NO|#)\s*[:\s]*([A-Z0-9\-\s]+)\<close>.
\<close>

definition vehicle_section_patterns :: "regex list" where
  "vehicle_section_patterns =
     [seqs [Lit ''VEH'', many ws, Lit ''#'', lazy_many Dot, Lit ''DESCRIBE DAMAGE''],
      seqs [Lit ''VEHICLE INFORMATION'', lazy_many Dot, Lit ''DESCRIBE DAMAGE''],
      seqs [Lit ''YEAR'', lazy_many Dot, Lit ''MAKE'', lazy_many Dot, Lit ''MODEL'',
            lazy_many Dot, Lit ''VIN'']]"

definition year_pattern :: regex where
  "year_pattern = seqs [Lit ''YEAR'', many ws, sep0, Grp (exactly 4 digit)]"

definition make_pattern :: regex where
  "make_pattern = seqs [Lit ''MAKE'', many ws, sep0, Grp (many1 (Cls [Upper, Lower, Space]))]"

definition model_pattern :: regex where
  "model_pattern =
     seqs [Lit ''MODEL'', many ws, sep0,
           Grp (many1 (Cls [Upper, Lower, Digit, Space, Ch CHR ''-'']))]"

definition vin_pattern :: regex where
  "vin_pattern =
     seqs [Lit ''V'', optional (Lit ''.''), Lit ''I'', optional (Lit ''.''), Lit ''N'',
           optional (Lit ''.''), many ws, sep0, Grp (exactly 17 (Cls [Upper, Digit]))]"

definition plate_pattern :: regex where
  "plate_pattern =
     seqs [Lit ''PLATE'', many ws, alts [Lit ''NUMBER'', Lit ''NO'', Lit ''#''], many ws, sep0,
           Grp (many1 (Cls [Upper, Digit, Ch CHR ''-'', Space]))]"

text \<open>One of the five fields: set when its pattern matches inside the section.\<close>

definition section_field ::
    "string \<Rightarrow> regex \<Rightarrow> (string \<Rightarrow> string) \<Rightarrow> string \<Rightarrow> fields \<Rightarrow> fields" where
  "section_field key r convert vehicle_text info =
     (case re_search FLAGS_I r vehicle_text of
        Some (whole, Some captured) \<Rightarrow> info(key \<mapsto> PStr (convert captured))
      | _ \<Rightarrow> info)"

definition vehicle_fields :: "string \<Rightarrow> fields" where
  "vehicle_fields vehicle_text =
     section_field ''plate_number'' plate_pattern (\<lambda>g. upper (strip g)) vehicle_text
       (section_field ''vin'' vin_pattern upper vehicle_text
         (section_field ''model'' model_pattern strip vehicle_text
           (section_field ''make'' make_pattern strip vehicle_text
             (section_field ''year'' year_pattern strip vehicle_text Map.empty))))"

fun vehicle_info_from :: "regex list \<Rightarrow> string \<Rightarrow> fields" where
  "vehicle_info_from [] text = Map.empty"
| "vehicle_info_from (r # rs) text =
     (case re_search FLAGS_IS r text of
        Some (vehicle_text, captured) \<Rightarrow> vehicle_fields vehicle_text
      | None \<Rightarrow> vehicle_info_from rs text)"

definition extract_vehicle_info :: "string \<Rightarrow> fields" where
  "extract_vehicle_info text = vehicle_info_from vehicle_section_patterns text"

text \<open>
  \<open>_extract_contact_info\<close>. Phone patterns, with \<open>IGNORECASE\<close>: the labels \<open>Phone\<close>,
  \<open>PHONE\<close>, \<open>Contact\<close>, \<open>Telephone\<close>, \<open>Tel\<close> followed by
  \<^verbatim>\<open>[:\s]+(?:\(?\d{3}\)?[-.\s]?)?(\d{3}[-.\s]?\d{4})\<close>, then
  \<^verbatim>\<open>(\d{3}[-.\s]?\d{3}[-.\s]?\d{4})(?=\s|$|\n)\<close>. Email patterns: the labels \<open>Email\<close>,
  \<open>E-MAIL\<close>, \<open>Contact\<close> followed by
  \<^verbatim>\<open>[:\s]+([a-zA-Z0-9._%+-]+@[a-zA-Z0-9.-]+\.[a-zA-Z]{2,})\<close>, then the bare address.
\<close>

definition dash :: regex where
  "dash = optional (Cls [Ch CHR ''-'', Ch CHR ''.'', Space])"

definition labelled_phone :: "string \<Rightarrow> regex" where
  "labelled_phone label =
     seqs [Lit label, sep1,
           optional (seqs [optional (Lit ''(''), exactly 3 digit, optional (Lit '')''), dash]),
           Grp (seqs [exactly 3 digit, dash, exactly 4 digit])]"

definition phone_patterns :: "regex list" where
  "phone_patterns =
     [labelled_phone ''Phone'', labelled_phone ''PHONE'', labelled_phone ''Contact'',
      labelled_phone ''Telephone'', labelled_phone ''Tel'',
      Seq (Grp (seqs [exactly 3 digit, dash, exactly 3 digit, dash, exactly 4 digit]))
          (Ahead (alts [ws, Eol, nl]))]"

definition address :: regex where
  "address =
     Grp (seqs [many1 (Cls email_chars), Lit ''@'',
                many1 (Cls [Lower, Upper, Digit, Ch CHR ''.'', Ch CHR ''-'']), Lit ''.'',
                at_least 2 (Cls [Lower, Upper])])"

definition email_patterns :: "regex list" where
  "email_patterns =
     [seqs [Lit ''Email'', sep1, address], seqs [Lit ''E-MAIL'', sep1, address],
      seqs [Lit ''Contact'', sep1, address], address]"

fun find_phone :: "regex list \<Rightarrow> string \<Rightarrow> fields" where
  "find_phone [] text = Map.empty"
| "find_phone (r # rs) text =
     (case re_search FLAGS_I r text of
        Some (whole, Some captured) \<Rightarrow>
          (let phone = filter is_digit captured
           in if 10 \<le> length phone then Map.empty(''contact_phone'' \<mapsto> PStr phone)
              else find_phone rs text)
      | _ \<Rightarrow> find_phone rs text)"

fun find_email :: "regex list \<Rightarrow> string \<Rightarrow> fields" where
  "find_email [] text = Map.empty"
| "find_email (r # rs) text =
     (case re_search FLAGS_I r text of
        Some (whole, Some captured) \<Rightarrow> Map.empty(''contact_email'' \<mapsto> PStr (lower captured))
      | _ \<Rightarrow> find_email rs text)"

definition extract_contact_info :: "string \<Rightarrow> fields" where
  "extract_contact_info text = find_phone phone_patterns text ++ find_email email_patterns text"

subsection \<open>Post-processing\<close>

text \<open>
  \<open>_post_process_fields\<close>, step by step. The description read for the inference is used as
  a string when it is truthy, so a truthy value that is no string raises.
\<close>

definition sync_amounts :: "fields \<Rightarrow> fields" where
  "sync_amounts extracted =
     (case (extracted ''estimated_damage'', extracted ''estimate_amount'') of
        (Some v, None) \<Rightarrow> extracted(''estimate_amount'' \<mapsto> v)
      | (None, Some v) \<Rightarrow> extracted(''estimated_damage'' \<mapsto> v)
      | _ \<Rightarrow> extracted)"

definition set_claim_type :: "fields \<Rightarrow> error + fields" where
  "set_claim_type extracted =
     (if extracted ''claim_type'' \<noteq> None then Inr extracted
      else (case extracted ''description'' of
              None \<Rightarrow> Inr (extracted(''claim_type'' \<mapsto> PStr (infer_claim_type [])))
            | Some (PStr d) \<Rightarrow> Inr (extracted(''claim_type'' \<mapsto> PStr (infer_claim_type d)))
            | Some v \<Rightarrow> if truthy v then Inl AttributeError
                        else Inr (extracted(''claim_type'' \<mapsto> PStr ''property_damage''))))"

definition amount_fallback :: "string \<Rightarrow> fields \<Rightarrow> fields" where
  "amount_fallback full_text extracted =
     (if (case extracted ''estimated_damage'' of None \<Rightarrow> True | Some v \<Rightarrow> \<not> truthy v) then
        (case re_search FLAGS_NONE dollar_amount full_text of
           Some (whole, Some captured) \<Rightarrow>
             (let amount = parse_amount captured
              in extracted(''estimated_damage'' \<mapsto> PFloat amount,
                           ''estimate_amount'' \<mapsto> PFloat amount))
         | _ \<Rightarrow> extracted)
      else extracted)"

definition strip_values :: "fields \<Rightarrow> fields" where
  "strip_values extracted =
     (\<lambda>key. case extracted key of Some (PStr s) \<Rightarrow> Some (PStr (strip s)) | v \<Rightarrow> v)"

definition post_process_fields :: "fields \<Rightarrow> string \<Rightarrow> error + fields" where
  "post_process_fields extracted full_text =
     (case set_claim_type (sync_amounts extracted) of
        Inl e \<Rightarrow> Inl e
      | Inr typed \<Rightarrow>
          Inr (strip_values
                 (amount_fallback full_text typed
                    ++ extract_vehicle_info full_text ++ extract_contact_info full_text)))"

definition extract_all_fields ::
    "(string \<Rightarrow> string \<Rightarrow> string option) \<Rightarrow> string option \<Rightarrow> error + fields" where
  "extract_all_fields strptime document_text =
     (let text = normalize_text document_text
      in post_process_fields (extract_patterns strptime text PATTERNS Map.empty) text)"

text \<open>\<open>identify_missing_fields\<close>.\<close>

definition identify_missing_fields :: "fields \<Rightarrow> string list" where
  "identify_missing_fields extracted_fields =
     filter (\<lambda>field. case extracted_fields field of None \<Rightarrow> True | Some v \<Rightarrow> \<not> truthy v)
            REQUIRED_FIELDS"

text \<open>Reading a key of the result of an extraction; an error has no keys.\<close>

definition field_of :: "error + fields \<Rightarrow> string \<Rightarrow> pyval option" where
  "field_of r key = (case r of Inl e \<Rightarrow> None | Inr ef \<Rightarrow> ef key)"

text \<open>A calendar library for which no text is a date.\<close>

definition unparsed :: "string \<Rightarrow> string \<Rightarrow> string option" where
  "unparsed fmt s = None"

section \<open>ACORD parser (acord\_parser.py): post-processing\<close>

text \<open>
  The patterns of \<open>_post_process_acord_fields\<close>, all with \<open>IGNORECASE\<close>:
  \<^verbatim>\<open>\$([0-9,]+\.?[0-9]*)\s*(?:estimate|damage|amount)\<close>,
  \<^verbatim>\<open>Amount[:\s]*\$?\s*([0-9,]+\.?[0-9]*)\<close>,
  \<^verbatim>\<open>([0-9,]+\.?[0-9]*)\s*dollars\<close>, and
  \<^verbatim>\<open>ESTIMATE AMOUNT[:\s]*(.*?)(?:\n|$)\<close>.
\<close>

definition acord_amount_patterns :: "regex list" where
  "acord_amount_patterns =
     [seqs [Lit ''$'', amount_group, many ws,
            alts [Lit ''estimate'', Lit ''damage'', Lit ''amount'']],
      seqs [Lit ''Amount'', sep0, optional (Lit ''$''), many ws, amount_group],
      seqs [amount_group, many ws, Lit ''dollars'']]"

definition acord_estimate_line :: regex where
  "acord_estimate_line = seqs [Lit ''ESTIMATE AMOUNT'', sep0, Grp (lazy_many Dot), Alt nl Eol]"

definition acord_injury_keywords :: "string list" where
  "acord_injury_keywords = [''injury'', ''injured'', ''hurt'', ''pain'', ''hospital'', ''ambulance'']"

fun first_amount :: "regex list \<Rightarrow> string \<Rightarrow> fields \<Rightarrow> fields" where
  "first_amount [] full_text extracted = extracted"
| "first_amount (r # rs) full_text extracted =
     (case re_search FLAGS_I r full_text of
        Some (whole, Some captured) \<Rightarrow>
          extracted(''estimate_amount'' \<mapsto> PFloat (parse_amount captured))
      | _ \<Rightarrow> first_amount rs full_text extracted)"

definition acord_alternative_amount :: "string \<Rightarrow> fields \<Rightarrow> fields" where
  "acord_alternative_amount full_text extracted =
     (if (case extracted ''estimate_amount'' of None \<Rightarrow> True | Some v \<Rightarrow> \<not> truthy v)
      then first_amount acord_amount_patterns full_text extracted
      else extracted)"

definition acord_structured_amount :: "string \<Rightarrow> fields \<Rightarrow> fields" where
  "acord_structured_amount full_text extracted =
     (if extracted ''estimate_amount'' = None then
        (case re_search FLAGS_I acord_estimate_line full_text of
           Some (whole, Some captured) \<Rightarrow>
             if strip captured \<noteq> []
             then extracted(''estimate_amount'' \<mapsto> PFloat (parse_amount (strip captured)))
             else extracted
         | _ \<Rightarrow> extracted)
      else extracted)"

text \<open>
  \<open>_post_process_acord_fields\<close>: the default claim type, the injury override read from the
  description (whose \<open>lower\<close> needs a string), and the two searches for an amount.
\<close>

definition post_process_acord_fields :: "fields \<Rightarrow> string \<Rightarrow> error + fields" where
  "post_process_acord_fields extracted full_text =
     (let typed = (if extracted ''claim_type'' = None
                   then extracted(''claim_type'' \<mapsto> PStr ''vehicle_damage'') else extracted)
      in case typed ''description'' of
           None \<Rightarrow>
             Inr (acord_structured_amount full_text (acord_alternative_amount full_text typed))
         | Some (PStr description) \<Rightarrow>
             Inr (acord_structured_amount full_text
                    (acord_alternative_amount full_text
                       (if any_in acord_injury_keywords (lower description)
                        then typed(''claim_type'' \<mapsto> PStr ''injury'') else typed)))
         | Some _ \<Rightarrow> Inl AttributeError)"

section \<open>Properties of the routing engine\<close>

lemma starts_with_iff: "starts_with k s \<longleftrightarrow> (\<exists>b. s = k @ b)"
  by (induction k s rule: starts_with.induct) auto

lemma str_in_iff: "str_in k s \<longleftrightarrow> (\<exists>a b. s = a @ k @ b)"
proof (induction s)
  case Nil
  then show ?case by auto
next
  case (Cons c cs)
  show ?case
  proof
    assume "str_in k (c # cs)"
    then consider "starts_with k (c # cs)" | "str_in k cs" by auto
    then show "\<exists>a b. c # cs = a @ k @ b"
    proof cases
      case 1
      then obtain b where "c # cs = k @ b" by (auto simp: starts_with_iff)
      then have "c # cs = [] @ k @ b" by simp
      then show ?thesis by blast
    next
      case 2
      then obtain a b where "cs = a @ k @ b" using Cons.IH by auto
      then have "c # cs = (c # a) @ k @ b" by simp
      then show ?thesis by blast
    qed
  next
    assume "\<exists>a b. c # cs = a @ k @ b"
    then obtain a b where ab: "c # cs = a @ k @ b" by blast
    show "str_in k (c # cs)"
    proof (cases a)
      case Nil
      then have "starts_with k (c # cs)" using ab by (auto simp: starts_with_iff)
      then show ?thesis by simp
    next
      case (Cons x xs)
      then have "cs = xs @ k @ b" using ab by simp
      then have "str_in k cs" using Cons.IH by blast
      then show ?thesis by simp
    qed
  qed
qed

lemma str_in_append_left: "str_in f s \<Longrightarrow> str_in f (p @ s)"
proof -
  assume "str_in f s"
  then obtain a b where "s = a @ f @ b" unfolding str_in_iff by blast
  then have "p @ s = (p @ a) @ f @ b" by simp
  then show ?thesis unfolding str_in_iff by blast
qed

lemma str_in_join: "f \<in> set xs \<Longrightarrow> str_in f (join sep xs)"
proof (induction sep xs rule: join.induct)
  case (1 sep)
  then show ?case by simp
next
  case (2 sep x)
  then have "x = [] @ f @ []" by simp
  then show ?case unfolding join.simps str_in_iff by blast
next
  case (3 sep x y ys)
  show ?case
  proof (cases "f = x")
    case True
    have "join sep (x # y # ys) = [] @ f @ (sep @ join sep (y # ys))" using True by simp
    then show ?thesis unfolding str_in_iff by blast
  next
    case False
    then have "str_in f (join sep (y # ys))" using 3 by auto
    then show ?thesis by (simp add: str_in_append_left del: str_in.simps)
  qed
qed


lemma threshold_text: "format_comma_f 0 FAST_TRACK_THRESHOLD = ''25,000''"
  by code_simp

text \<open>
  C1. Whenever the list of missing fields is not empty, \<open>determine_route\<close> returns the
  route \<open>Manual Review\<close>; its reasoning is \<open>Missing required fields:\<close> followed by the
  missing fields joined with commas, so every missing field occurs in it; and the result
  is the same for every extracted-fields dictionary, since no later rule is evaluated.
\<close>

theorem missing_fields_manual_review:
  assumes "missing \<noteq> []"
  shows "determine_route ef missing
           = Inr (''Manual Review'', ''Missing required fields: '' @ join '', '' missing)
         \<and> (\<forall>f \<in> set missing. str_in f (''Missing required fields: '' @ join '', '' missing))
         \<and> determine_route ef missing = determine_route ef' missing"
  using assms by (simp add: determine_route_def str_in_join str_in_append_left)

theorem missing_fields_manual_review_witness:
  "[''location'', ''claim_type''] \<noteq> []
   \<and> determine_route (Map.empty(''description'' \<mapsto> PStr ''staged fraud''))
         [''location'', ''claim_type'']
       = Inr (''Manual Review'', ''Missing required fields: location, claim_type'')
   \<and> str_in ''claim_type'' ''Missing required fields: location, claim_type''"
  using missing_fields_manual_review
          [of "[''location'', ''claim_type'']"
              "Map.empty(''description'' \<mapsto> PStr ''staged fraud'')" Map.empty]
  by simp

text \<open>
  C2. With no missing field, a description that is a string and whose lower-cased text
  contains a keyword of \<open>FRAUD_KEYWORDS\<close> as a substring makes \<open>determine_route\<close> return
  \<open>Investigation Flag\<close>, whatever the damage amount and the claim type are (they are
  arbitrary in \<open>ef\<close>); the reasoning lists the first three matched keywords, in the
  order of the keyword list, or fewer when fewer matched.
\<close>

theorem fraud_gate:
  assumes "ef ''description'' = Some (PStr d)"
    and "\<exists>k \<in> set FRAUD_KEYWORDS. str_in k (lower d)"
  shows "determine_route ef [] =
           Inr (''Investigation Flag'',
                ''Fraud indicators detected: ''
                  @ join '', '' (take 3 (filter (\<lambda>k. str_in k (lower d)) FRAUD_KEYWORDS)))
         \<and> length (take 3 (filter (\<lambda>k. str_in k (lower d)) FRAUD_KEYWORDS)) \<le> 3
         \<and> take 3 (filter (\<lambda>k. str_in k (lower d)) FRAUD_KEYWORDS) \<noteq> []"
proof -
  from assms(2) have ne: "filter (\<lambda>k. str_in k (lower d)) FRAUD_KEYWORDS \<noteq> []"
    by (simp add: filter_empty_conv)
  then have "take 3 (filter (\<lambda>k. str_in k (lower d)) FRAUD_KEYWORDS) \<noteq> []"
    by (cases "filter (\<lambda>k. str_in k (lower d)) FRAUD_KEYWORDS") auto
  moreover have "determine_route ef [] =
           Inr (''Investigation Flag'',
                ''Fraud indicators detected: ''
                  @ join '', '' (take 3 (filter (\<lambda>k. str_in k (lower d)) FRAUD_KEYWORDS)))"
    using ne assms(1) by (simp add: determine_route_def get_description_lower_def)
  ultimately show ?thesis by simp
qed

lemma damage_rule_fast:
  "float_gt damage (Fin 0) \<Longrightarrow> float_lt damage (Fin 25000) \<Longrightarrow>
     damage_rule (PFloat damage) description =
       Inr (''Fast-track'',
            join ''. '' ((''Estimated damage ($'' @ format_comma_f 2 damage
                           @ '') is below $25,000 threshold'')
                         # check_additional_factors description))"
  unfolding damage_rule_def threshold_text by (simp add: FAST_TRACK_THRESHOLD_def)

lemma damage_rule_standard:
  "float_gt damage (Fin 0) \<Longrightarrow> \<not> float_lt damage (Fin 25000) \<Longrightarrow>
     damage_rule (PFloat damage) description =
       Inr (''Standard Processing'',
            join ''. '' ((''Estimated damage ($'' @ format_comma_f 2 damage
                           @ '') meets or exceeds $25,000 threshold'')
                         # check_additional_factors description))"
  unfolding damage_rule_def threshold_text by (simp add: FAST_TRACK_THRESHOLD_def)

lemma damage_rule_manual:
  "\<not> float_gt damage (Fin 0) \<Longrightarrow>
     damage_rule (PFloat damage) description =
       Inr (''Manual Review'',
            join ''. '' (''Damage amount not specified or could not be extracted''
                         # check_additional_factors description))"
  unfolding damage_rule_def by simp


theorem fraud_gate_witness:
  "determine_route (Map.empty(''description'' \<mapsto> PStr ''Suspicious claim, possibly STAGED accident for Fraud; a scam'',
                              ''estimated_damage'' \<mapsto> PFloat (Fin 18000),
                              ''claim_type'' \<mapsto> PStr ''injury'')) []
     = Inr (''Investigation Flag'', ''Fraud indicators detected: fraud, staged, suspicious'')"
proof -
  let ?d = "''Suspicious claim, possibly STAGED accident for Fraud; a scam''"
  let ?ef = "Map.empty(''description'' \<mapsto> PStr ?d,
                       ''estimated_damage'' \<mapsto> PFloat (Fin 18000),
                       ''claim_type'' \<mapsto> PStr ''injury'')"
  have l: "lower ?d = ''suspicious claim, possibly staged accident for fraud; a scam''"
    by code_simp
  have 1: "?ef ''description'' = Some (PStr ?d)" by simp
  have 2: "\<exists>k \<in> set FRAUD_KEYWORDS. str_in k (lower ?d)"
    unfolding l by (simp add: FRAUD_KEYWORDS_def)
  have 3: "take 3 (filter (\<lambda>k. str_in k (lower ?d)) FRAUD_KEYWORDS)
             = [''fraud'', ''staged'', ''suspicious'']"
    unfolding l by (simp add: FRAUD_KEYWORDS_def)
  show ?thesis using fraud_gate [of ?ef ?d, OF 1 2] unfolding 3 by simp
qed

text \<open>
  C3. When rules 1 to 3 do not fire (no missing field, no fraud keyword in the lower-cased
  description, claim type not \<open>injury\<close>), the damage amount read under the key
  \<open>estimated_damage\<close> decides: strictly positive and strictly below 25,000 gives
  \<open>Fast-track\<close>, strictly positive and not below 25,000 gives \<open>Standard Processing\<close>, in
  both cases with a first reasoning fragment that states the amount, the threshold and
  the outcome of the comparison; no strictly positive amount gives \<open>Manual Review\<close> with the
  first fragment \<open>Damage amount not specified or could not be extracted\<close>. The fragments
  of the additional considerations follow the first fragment.
\<close>

theorem damage_threshold_gate:
  assumes desc: "get_description_lower ef = Inr description"
    and nofraud: "\<forall>k \<in> set FRAUD_KEYWORDS. \<not> str_in k description"
    and noinj: "ef ''claim_type'' \<noteq> Some (PStr ''injury'')"
    and dmg: "(case ef ''estimated_damage'' of None \<Rightarrow> PFloat (Fin 0) | Some v \<Rightarrow> v)
                = PFloat damage"
  shows "(float_gt damage (Fin 0) \<and> float_lt damage (Fin 25000) \<longrightarrow>
            determine_route ef [] =
              Inr (''Fast-track'',
                   join ''. '' ((''Estimated damage ($'' @ format_comma_f 2 damage
                                  @ '') is below $25,000 threshold'')
                                # check_additional_factors description)))
       \<and> (float_gt damage (Fin 0) \<and> \<not> float_lt damage (Fin 25000) \<longrightarrow>
            determine_route ef [] =
              Inr (''Standard Processing'',
                   join ''. '' ((''Estimated damage ($'' @ format_comma_f 2 damage
                                  @ '') meets or exceeds $25,000 threshold'')
                                # check_additional_factors description)))
       \<and> (\<not> float_gt damage (Fin 0) \<longrightarrow>
            determine_route ef [] =
              Inr (''Manual Review'',
                   join ''. '' (''Damage amount not specified or could not be extracted''
                                # check_additional_factors description))
            \<and> lower ''Damage amount not specified or could not be extracted''
                  = ''damage amount not specified or could not be extracted'')"
proof -
  have nf: "filter (\<lambda>k. str_in k description) FRAUD_KEYWORDS = []"
    using nofraud by (simp add: filter_empty_conv)
  have ct: "(case ef ''claim_type'' of None \<Rightarrow> PStr ''property_damage'' | Some v \<Rightarrow> v)
              \<noteq> PStr ''injury''"
    using noinj by (cases "ef ''claim_type''") auto
  have dr: "determine_route ef [] = damage_rule (PFloat damage) description"
    using desc nf ct dmg by (simp add: determine_route_def)
  have lw: "lower ''Damage amount not specified or could not be extracted''
              = ''damage amount not specified or could not be extracted''"
    by code_simp
  show ?thesis
    unfolding dr using damage_rule_fast damage_rule_standard damage_rule_manual lw by blast
qed



lemma no_fraud_example:
  "\<forall>k \<in> set FRAUD_KEYWORDS. \<not> str_in k ''minor scratch on the bumper of a truck''"
  by (simp add: FRAUD_KEYWORDS_def)

lemma lower_example:
  "lower ''Minor scratch on the bumper of a truck'' = ''minor scratch on the bumper of a truck''"
  by code_simp

lemma factors_example:
  "check_additional_factors ''minor scratch on the bumper of a truck''
     = [''Commercial vehicle involved'']"
  by (simp add: check_additional_factors_def str_count_def)

theorem damage_threshold_gate_witness:
  "determine_route (Map.empty(''description'' \<mapsto> PStr ''Minor scratch on the bumper of a truck'',
                              ''estimated_damage'' \<mapsto> PFloat (Fin 8000),
                              ''claim_type'' \<mapsto> PStr ''vehicle_damage'')) []
     = Inr (''Fast-track'',
            ''Estimated damage ($8,000.00) is below $25,000 threshold. Commercial vehicle involved'')
   \<and> determine_route (Map.empty(''description'' \<mapsto> PStr ''Minor scratch on the bumper of a truck'',
                              ''estimated_damage'' \<mapsto> PFloat (Fin 25000))) []
     = Inr (''Standard Processing'',
            ''Estimated damage ($25,000.00) meets or exceeds $25,000 threshold. Commercial vehicle involved'')
   \<and> determine_route (Map.empty(''description'' \<mapsto> PStr ''Minor scratch on the bumper of a truck'',
                              ''estimate_amount'' \<mapsto> PFloat (Fin 8000))) []
     = Inr (''Manual Review'',
            ''Damage amount not specified or could not be extracted. Commercial vehicle involved'')"
proof -
  let ?d = "''Minor scratch on the bumper of a truck''"
  let ?l = "''minor scratch on the bumper of a truck''"
  let ?e1 = "Map.empty(''description'' \<mapsto> PStr ?d,
                       ''estimated_damage'' \<mapsto> PFloat (Fin 8000),
                       ''claim_type'' \<mapsto> PStr ''vehicle_damage'')"
  let ?e2 = "Map.empty(''description'' \<mapsto> PStr ?d,
                       ''estimated_damage'' \<mapsto> PFloat (Fin 25000))"
  let ?e3 = "Map.empty(''description'' \<mapsto> PStr ?d,
                       ''estimate_amount'' \<mapsto> PFloat (Fin 8000))"
  have f1: "format_comma_f 2 (Fin 8000) = ''8,000.00''" by code_simp
  have f2: "format_comma_f 2 (Fin 25000) = ''25,000.00''" by code_simp
  have d1: "get_description_lower ?e1 = Inr ?l"
    by (simp add: get_description_lower_def lower_example)
  have d2: "get_description_lower ?e2 = Inr ?l"
    by (simp add: get_description_lower_def lower_example)
  have d3: "get_description_lower ?e3 = Inr ?l"
    by (simp add: get_description_lower_def lower_example)
  have r1: "determine_route ?e1 [] = Inr (''Fast-track'',
            ''Estimated damage ($8,000.00) is below $25,000 threshold. Commercial vehicle involved'')"
    using damage_threshold_gate [of ?e1 ?l "Fin 8000", OF d1 no_fraud_example]
    by (simp add: float_gt_def f1 factors_example)
  have r2: "determine_route ?e2 [] = Inr (''Standard Processing'',
            ''Estimated damage ($25,000.00) meets or exceeds $25,000 threshold. Commercial vehicle involved'')"
    using damage_threshold_gate [of ?e2 ?l "Fin 25000", OF d2 no_fraud_example]
    by (simp add: float_gt_def f2 factors_example)
  have r3: "determine_route ?e3 [] = Inr (''Manual Review'',
            ''Damage amount not specified or could not be extracted. Commercial vehicle involved'')"
    using damage_threshold_gate [of ?e3 ?l "Fin 0", OF d3 no_fraud_example]
    by (simp add: float_gt_def factors_example)
  show ?thesis using r1 r2 r3 by blast
qed


section \<open>Properties of the value coercions\<close>

lemma pow2_pos: "0 < pow2 e"
  by (simp add: pow2_def)

lemma round_half_even_nonneg: "0 \<le> x \<Longrightarrow> 0 \<le> round_half_even x"
  by (auto simp: round_half_even_def Let_def)

lemma round_to_double_nonneg: "0 \<le> x \<Longrightarrow> float_le (Fin 0) (round_to_double x)"
proof -
  assume x: "0 \<le> x"
  have "0 \<le> round_half_even (\<bar>x\<bar> / pow2 e)" for e
    using pow2_pos [of e] by (intro round_half_even_nonneg) simp
  moreover have "0 \<le> pow2 e" for e
    using pow2_pos [of e] by simp
  ultimately show ?thesis
    using x by (auto simp: round_to_double_def Let_def)
qed

lemma digit_value_nonneg: "0 \<le> digit_value c"
  by (auto simp: digit_value_def split: option.splits if_splits)

lemma foldl_digits_nonneg: "0 \<le> a \<Longrightarrow> 0 \<le> foldl (\<lambda>a c. 10 * a + digit_value c) a s"
proof (induction s arbitrary: a)
  case Nil
  then show ?case by simp
next
  case (Cons c s)
  have "0 \<le> 10 * a + digit_value c"
    using Cons.prems digit_value_nonneg [of c] by simp
  then show ?case using Cons.IH by simp
qed

lemma digits_value_nonneg: "0 \<le> digits_value s"
  by (simp add: digits_value_def foldl_digits_nonneg)

lemma float_of_decimal_nonneg:
  "float_of_decimal s = Inr v \<Longrightarrow> float_le (Fin 0) v"
proof -
  assume a: "float_of_decimal s = Inr v"
  have "(0::rat) \<le> of_int (digits_value t) / 10 ^ n" for t n
    using digits_value_nonneg [of t] by simp
  then show ?thesis
    using a round_to_double_nonneg
    by (auto simp: float_of_decimal_def Let_def split: if_splits)
qed

text \<open>
  C6. \<open>_parse_amount\<close> is total: its result is the float read from the digits and
  decimal points of the input when they form a decimal number, and \<open>0.0\<close> in every other
  case, the ones where \<open>float\<close> raises included; the result is never negative, and it
  depends on the digits and decimal points of the input only.
\<close>

theorem parse_amount_total:
  "parse_amount s
     = (case float_of_decimal (filter (\<lambda>c. is_digit c \<or> c = CHR ''.'') s) of
          Inl e \<Rightarrow> Fin 0 | Inr v \<Rightarrow> v)
   \<and> float_le (Fin 0) (parse_amount s)
   \<and> parse_amount s = parse_amount (filter (\<lambda>c. is_digit c \<or> c = CHR ''.'') s)"
proof -
  let ?c = "filter (\<lambda>c. is_digit c \<or> c = CHR ''.'') s"
  have empty: "float_of_decimal [] = Inl ValueError"
    by (simp add: float_of_decimal_def)
  have 1: "parse_amount s = (case float_of_decimal ?c of Inl e \<Rightarrow> Fin 0 | Inr v \<Rightarrow> v)"
    by (cases "?c = []") (simp_all add: parse_amount_def empty split: sum.splits)
  have 2: "float_le (Fin 0) (parse_amount s)"
    unfolding 1 using float_of_decimal_nonneg by (auto split: sum.splits)
  have 3: "parse_amount s = parse_amount ?c"
    by (simp add: parse_amount_def)
  show ?thesis using 1 2 3 by blast
qed

theorem parse_amount_total_witness:
  "parse_amount ''$12,500.00'' = Fin 12500
   \<and> float_le (Fin 0) (parse_amount ''$12,500.00'')
   \<and> parse_amount ''1.2.3'' = Fin 0
   \<and> parse_amount ''Unknown'' = Fin 0"
proof -
  have f1: "float_of_decimal (filter (\<lambda>c. is_digit c \<or> c = CHR ''.'') ''$12,500.00'')
              = Inr (Fin 12500)"
    by code_simp
  have f2: "float_of_decimal (filter (\<lambda>c. is_digit c \<or> c = CHR ''.'') ''1.2.3'')
              = Inl ValueError"
    by code_simp
  have f3: "float_of_decimal (filter (\<lambda>c. is_digit c \<or> c = CHR ''.'') ''Unknown'')
              = Inl ValueError"
    by code_simp
  show ?thesis
    using parse_amount_total [of "''$12,500.00''"] parse_amount_total [of "''1.2.3''"]
          parse_amount_total [of "''Unknown''"]
    unfolding f1 f2 f3 by simp
qed

lemma parse_amount_examples:
  "parse_amount ''$12,500.00'' = Fin 12500"
  "parse_amount ''USD 0.1'' = Fin (3602879701896397 / 36028797018963968)"
  "parse_amount ''1.2.3'' = Fin 0"
  "parse_amount ''Unknown'' = Fin 0"
  "parse_amount ''.'' = Fin 0"
  "parse_amount [] = Fin 0"
  by code_simp+

lemma length_collapse_from: "length (collapse_from prev s) \<le> length s"
  by (induction s arbitrary: prev) (auto simp: le_SucI)

lemma length_strip: "length (strip s) \<le> length s"
proof -
  have "length (dropWhile is_space (rev (dropWhile is_space s)))
          \<le> length (rev (dropWhile is_space s))"
    by (rule length_dropWhile_le)
  also have "\<dots> \<le> length s"
    by (simp add: length_dropWhile_le)
  finally show ?thesis by (simp add: strip_def)
qed

lemma starts_with_length: "starts_with k s \<Longrightarrow> length k \<le> length s"
  by (auto simp: starts_with_iff)

lemma length_replace_from:
  "old \<noteq> [] \<Longrightarrow> length old = length new \<Longrightarrow> n \<le> length s \<Longrightarrow>
     length (replace_from old new n s) = length s - n"
proof (induction s arbitrary: n)
  case Nil
  then show ?case by simp
next
  case (Cons c cs)
  show ?case
  proof (cases "0 < n")
    case True
    then show ?thesis using Cons by (cases n) auto
  next
    case False
    show ?thesis
    proof (cases "starts_with old (c # cs)")
      case True
      then have "length old \<le> Suc (length cs)"
        using starts_with_length by fastforce
      moreover have "0 < length old" using Cons.prems(1) by simp
      ultimately show ?thesis
        using False True Cons.IH [of "length old - 1"] Cons.prems by (cases new) auto
    next
      case no: False
      then show ?thesis using False Cons.IH [of 0] Cons.prems by simp
    qed
  qed
qed

lemma length_str_replace:
  "old \<noteq> [] \<Longrightarrow> length old = length new \<Longrightarrow> length (str_replace s old new) = length s"
  by (simp add: str_replace_def length_replace_from)

lemma length_ocr: 
  "length (foldl (\<lambda>d (wrong, correct). str_replace d wrong correct) d ocr_corrections) = length d"
  by (simp add: ocr_corrections_def length_str_replace)

lemma length_tidy_description: "length (tidy_description desc) \<le> length desc"
proof -
  let ?d1 = "collapse_whitespace (strip desc)"
  let ?d2 = "dropWhile is_desc_trim ?d1"
  let ?d3 = "rev (dropWhile is_desc_trim (rev ?d2))"
  have "length ?d3 \<le> length ?d2"
    using length_dropWhile_le [of is_desc_trim "rev ?d2"] by simp
  also have "\<dots> \<le> length ?d1" by (rule length_dropWhile_le)
  also have "\<dots> \<le> length (strip desc)"
    by (simp add: collapse_whitespace_def length_collapse_from)
  also have "\<dots> \<le> length desc" by (rule length_strip)
  finally show ?thesis by (simp add: tidy_description_def Let_def length_ocr)
qed











section \<open>Properties of the ACORD post-processing\<close>

lemma first_amount_other_key:
  "key \<noteq> ''estimate_amount'' \<Longrightarrow> first_amount rs full_text extracted key = extracted key"
  by (induction rs) (auto split: option.splits prod.splits)

lemma acord_alternative_amount_other_key:
  "key \<noteq> ''estimate_amount'' \<Longrightarrow>
     acord_alternative_amount full_text extracted key = extracted key"
  by (simp add: acord_alternative_amount_def first_amount_other_key)

lemma acord_structured_amount_other_key:
  "key \<noteq> ''estimate_amount'' \<Longrightarrow>
     acord_structured_amount full_text extracted key = extracted key"
  by (auto simp: acord_structured_amount_def split: option.splits prod.splits)

lemma acord_amounts_claim_type:
  "acord_structured_amount full_text (acord_alternative_amount full_text extracted) ''claim_type''
     = extracted ''claim_type''"
  by (simp add: acord_structured_amount_other_key acord_alternative_amount_other_key)

text \<open>
  C10. When the ACORD pattern extraction produced no \<open>claim_type\<close> key (and the
  description, if any, is a string, as the extraction makes it), post-processing succeeds
  and sets \<open>claim_type\<close> to \<open>injury\<close> exactly when a description is present whose
  lower-cased text contains one of \<open>injury\<close>, \<open>injured\<close>, \<open>hurt\<close>, \<open>pain\<close>, \<open>hospital\<close>,
  \<open>ambulance\<close>, and to the default \<open>vehicle_damage\<close> in every other case; the value
  \<open>property_damage\<close> of the generic extractor never arises here.
\<close>

theorem acord_claim_type:
  assumes "extracted ''claim_type'' = None"
    and "extracted ''description'' = None \<or> (\<exists>d. extracted ''description'' = Some (PStr d))"
  shows "\<exists>ef. post_process_acord_fields extracted full_text = Inr ef
           \<and> ef ''claim_type'' =
               Some (PStr (case extracted ''description'' of
                             Some (PStr d) \<Rightarrow>
                               if list_ex (\<lambda>keyword. str_in keyword (lower d))
                                    [''injury'', ''injured'', ''hurt'', ''pain'', ''hospital'',
                                     ''ambulance'']
                               then ''injury'' else ''vehicle_damage''
                           | _ \<Rightarrow> ''vehicle_damage''))"
proof -
  from assms(2) show ?thesis
  proof
    assume "extracted ''description'' = None"
    then show ?thesis
      using assms(1)
      by (simp add: post_process_acord_fields_def acord_amounts_claim_type)
  next
    assume "\<exists>d. extracted ''description'' = Some (PStr d)"
    then obtain d where d: "extracted ''description'' = Some (PStr d)" by blast
    show ?thesis
      using assms(1) d
      by (simp add: post_process_acord_fields_def acord_amounts_claim_type any_in_def
            acord_injury_keywords_def)
  qed
qed

theorem acord_claim_type_witness:
  "field_of (post_process_acord_fields
               (Map.empty(''description'' \<mapsto> PStr ''Driver taken to HOSPITAL after crash''))
               ''ESTIMATE AMOUNT: $4,000'') ''claim_type'' = Some (PStr ''injury'')
   \<and> field_of (post_process_acord_fields
               (Map.empty(''description'' \<mapsto> PStr ''Rear bumper dented''))
               ''ESTIMATE AMOUNT: $4,000'') ''claim_type'' = Some (PStr ''vehicle_damage'')
   \<and> field_of (post_process_acord_fields Map.empty ''ESTIMATE AMOUNT: $4,000'') ''claim_type''
       = Some (PStr ''vehicle_damage'')"
proof -
  let ?e1 = "Map.empty(''description'' \<mapsto> PStr ''Driver taken to HOSPITAL after crash'')"
  let ?e2 = "Map.empty(''description'' \<mapsto> PStr ''Rear bumper dented'')"
  let ?t = "''ESTIMATE AMOUNT: $4,000''"
  have l1: "lower ''Driver taken to HOSPITAL after crash''
              = ''driver taken to hospital after crash''" by code_simp
  have l2: "lower ''Rear bumper dented'' = ''rear bumper dented''" by code_simp
  have 1: "field_of (post_process_acord_fields ?e1 ?t) ''claim_type'' = Some (PStr ''injury'')"
    using acord_claim_type [of ?e1 ?t] by (auto simp: field_of_def l1)
  have 2: "field_of (post_process_acord_fields ?e2 ?t) ''claim_type''
             = Some (PStr ''vehicle_damage'')"
    using acord_claim_type [of ?e2 ?t] by (auto simp: field_of_def l2)
  have 3: "field_of (post_process_acord_fields Map.empty ?t) ''claim_type''
             = Some (PStr ''vehicle_damage'')"
    using acord_claim_type [of Map.empty ?t] by (auto simp: field_of_def)
  show ?thesis using 1 2 3 by blast
qed

section \<open>Properties of the extraction\<close>

lemma normalize_text_empty: "normalize_text None = []" "normalize_text (Some []) = []"
  by (simp_all add: normalize_text_def)

lemma extract_patterns_empty_key: "extract_patterns sp [] PATTERNS Map.empty key = None"
  by code_simp

lemma extract_patterns_empty: "extract_patterns sp [] PATTERNS Map.empty = Map.empty"
  by (rule ext) (rule extract_patterns_empty_key)

lemma no_dollar_in_empty: "re_search FLAGS_NONE dollar_amount [] = None"
  by code_simp

lemma vehicle_info_empty_key: "extract_vehicle_info [] key = None"
  by code_simp

lemma vehicle_info_empty: "extract_vehicle_info [] = Map.empty"
  by (rule ext) (rule vehicle_info_empty_key)

lemma contact_info_empty_key: "extract_contact_info [] key = None"
  by code_simp

lemma contact_info_empty: "extract_contact_info [] = Map.empty"
  by (rule ext) (rule contact_info_empty_key)

lemma strip_property_damage: "strip ''property_damage'' = ''property_damage''"
  by code_simp

lemma strip_values_single:
  "strip_values (Map.empty(key \<mapsto> PStr s)) = Map.empty(key \<mapsto> PStr (strip s))"
  by (rule ext) (simp add: strip_values_def)

lemma post_process_empty:
  "post_process_fields Map.empty [] = Inr (Map.empty(''claim_type'' \<mapsto> PStr ''property_damage''))"
  by (simp add: post_process_fields_def sync_amounts_def set_claim_type_def infer_claim_type_def
        amount_fallback_def no_dollar_in_empty vehicle_info_empty contact_info_empty
        strip_values_single strip_property_damage del: re_search.simps)

lemma extract_empty:
  "extract_all_fields sp None = Inr (Map.empty(''claim_type'' \<mapsto> PStr ''property_damage''))"
  "extract_all_fields sp (Some []) = Inr (Map.empty(''claim_type'' \<mapsto> PStr ''property_damage''))"
  by (simp_all add: extract_all_fields_def normalize_text_empty extract_patterns_empty
        post_process_empty)

lemma missing_of_empty:
  "identify_missing_fields (Map.empty(''claim_type'' \<mapsto> PStr ''property_damage''))
     = [''policy_number'', ''policyholder_name'', ''date_of_loss'', ''location'',
        ''description'', ''estimated_damage'']"
  by (simp add: identify_missing_fields_def REQUIRED_FIELDS_def)

text \<open>
  C7, as the code has it. For the input \<open>None\<close> and for the empty string the normaliser
  returns the empty string; extraction raises nothing and yields the dictionary whose
  only key is \<open>claim_type\<close>, with the default \<open>property_damage\<close> of the claim-type
  inference; the six other required fields are reported missing; and routing returns
  \<open>Manual Review\<close>. This holds for every calendar library.
\<close>

theorem empty_input_path:
  "normalize_text None = [] \<and> normalize_text (Some []) = []
   \<and> extract_all_fields sp None
       = Inr (Map.empty(''claim_type'' \<mapsto> PStr ''property_damage''))
   \<and> extract_all_fields sp (Some [])
       = Inr (Map.empty(''claim_type'' \<mapsto> PStr ''property_damage''))
   \<and> identify_missing_fields (Map.empty(''claim_type'' \<mapsto> PStr ''property_damage''))
       = [''policy_number'', ''policyholder_name'', ''date_of_loss'', ''location'',
          ''description'', ''estimated_damage'']
   \<and> determine_route (Map.empty(''claim_type'' \<mapsto> PStr ''property_damage''))
         (identify_missing_fields (Map.empty(''claim_type'' \<mapsto> PStr ''property_damage'')))
       = Inr (''Manual Review'',
              ''Missing required fields: policy_number, policyholder_name, date_of_loss, location, description, estimated_damage'')"
  unfolding missing_of_empty
  by (simp add: normalize_text_empty extract_empty determine_route_def)

theorem empty_input_path_witness:
  "extract_all_fields unparsed (Some [])
       = Inr (Map.empty(''claim_type'' \<mapsto> PStr ''property_damage''))
   \<and> determine_route (Map.empty(''claim_type'' \<mapsto> PStr ''property_damage''))
         (identify_missing_fields (Map.empty(''claim_type'' \<mapsto> PStr ''property_damage'')))
       = Inr (''Manual Review'',
              ''Missing required fields: policy_number, policyholder_name, date_of_loss, location, description, estimated_damage'')"
  using empty_input_path [of unparsed] by blast

theorem empty_input_path_counterexample:
  "extract_all_fields unparsed (Some []) \<noteq> Inr Map.empty
   \<and> identify_missing_fields (Map.empty(''claim_type'' \<mapsto> PStr ''property_damage''))
       \<noteq> REQUIRED_FIELDS"
proof -
  have "Map.empty(''claim_type'' \<mapsto> PStr ''property_damage'') \<noteq> Map.empty"
    by simp
  then have 1: "extract_all_fields unparsed (Some []) \<noteq> Inr Map.empty"
    by (simp add: extract_empty)
  have 2: "identify_missing_fields (Map.empty(''claim_type'' \<mapsto> PStr ''property_damage''))
             \<noteq> REQUIRED_FIELDS"
    by (simp add: missing_of_empty REQUIRED_FIELDS_def)
  show ?thesis using 1 2 by blast
qed

lemma extract_patterns_truthy:
  "(\<And>k v. results k = Some v \<Longrightarrow> truthy v) \<Longrightarrow>
     extract_patterns sp doc table results key = Some v \<Longrightarrow> truthy v"
proof (induction table arbitrary: results)
  case Nil
  then show ?case by simp
next
  case (Cons entry table)
  obtain field patterns where entry: "entry = (field, patterns)" by (cases entry)
  let ?found = "extract_with_patterns sp doc patterns field"
  let ?updated = "if truthy ?found then results(field \<mapsto> ?found) else results"
  have "\<And>k v. ?updated k = Some v \<Longrightarrow> truthy v"
    using Cons.prems(1) by (auto split: if_splits)
  moreover have "extract_patterns sp doc table ?updated key = Some v"
    using Cons.prems(2) by (simp add: entry Let_def)
  ultimately show ?case by (rule Cons.IH)
qed

lemma extract_patterns_source:
  "extract_patterns sp doc table results key = Some v \<Longrightarrow>
     results key = Some v
     \<or> (\<exists>patterns. (key, patterns) \<in> set table
                     \<and> v = extract_with_patterns sp doc patterns key)"
proof (induction table arbitrary: results)
  case Nil
  then show ?case by simp
next
  case (Cons entry table)
  obtain field patterns where entry: "entry = (field, patterns)" by (cases entry)
  let ?found = "extract_with_patterns sp doc patterns field"
  let ?updated = "if truthy ?found then results(field \<mapsto> ?found) else results"
  have "extract_patterns sp doc table ?updated key = Some v"
    using Cons.prems by (simp add: entry Let_def)
  then have "?updated key = Some v
     \<or> (\<exists>ps. (key, ps) \<in> set table \<and> v = extract_with_patterns sp doc ps key)"
    by (rule Cons.IH)
  then show ?case
    by (auto simp: entry split: if_splits)
qed

lemma extract_with_patterns_cases:
  "extract_with_patterns sp doc patterns field = PNone
   \<or> (\<exists>value. extract_with_patterns sp doc patterns field = clean_field_value sp value field)"
proof (induction patterns)
  case Nil
  then show ?case by simp
next
  case (Cons p patterns)
  show ?case
  proof (cases p)
    case Invalid
    then show ?thesis using Cons.IH by simp
  next
    case (Pat r)
    show ?thesis
    proof (cases "re_search FLAGS_IM r doc")
      case None
      then show ?thesis using Cons.IH Pat by simp
    next
      case (Some m)
      obtain whole g where m: "m = (whole, g)" by (cases m)
      show ?thesis
      proof (cases g)
        case None
        then show ?thesis using Cons.IH Pat Some m by simp
      next
        case (Some captured)
        show ?thesis
        proof (cases "captured \<noteq> [] \<and> strip captured \<noteq> []")
          case True
          then have "extract_with_patterns sp doc (p # patterns) field
                       = clean_field_value sp (strip captured) field"
            using Pat \<open>re_search FLAGS_IM r doc = Some m\<close> m Some by simp
          then show ?thesis by blast
        next
          case False
          then have "extract_with_patterns sp doc (p # patterns) field
                       = extract_with_patterns sp doc patterns field"
            using Pat \<open>re_search FLAGS_IM r doc = Some m\<close> m Some by auto
          then show ?thesis using Cons.IH by simp
        qed
      qed
    qed
  qed
qed

lemma clean_description_value:
  "clean_field_value sp value ''description'' = PNone
   \<or> (\<exists>d. clean_field_value sp value ''description'' = PStr d)"
  by (simp add: clean_field_value_def Let_def)

lemma pattern_description_typed:
  "extract_patterns sp doc PATTERNS Map.empty ''description'' = Some v \<Longrightarrow> \<exists>d. v = PStr d"
proof -
  assume a: "extract_patterns sp doc PATTERNS Map.empty ''description'' = Some v"
  have t: "truthy v"
    using a by (rule extract_patterns_truthy [rotated]) simp
  from extract_patterns_source [OF a] obtain patterns where
    v: "v = extract_with_patterns sp doc patterns ''description''"
    by auto
  from extract_with_patterns_cases [of sp doc patterns "''description''"]
  show ?thesis
  proof
    assume "extract_with_patterns sp doc patterns ''description'' = PNone"
    then show ?thesis using t v by simp
  next
    assume "\<exists>value. extract_with_patterns sp doc patterns ''description''
                      = clean_field_value sp value ''description''"
    then obtain x where
      "extract_with_patterns sp doc patterns ''description''
         = clean_field_value sp x ''description''" by blast
    then show ?thesis
      using t v clean_description_value [of sp x] by auto
  qed
qed

lemma claim_type_no_pattern_key: "''claim_type'' \<notin> set (map fst PATTERNS)"
  by (simp add: PATTERNS_def)

lemma pattern_no_claim_type:
  "extract_patterns sp doc PATTERNS Map.empty ''claim_type'' = None"
proof (cases "extract_patterns sp doc PATTERNS Map.empty ''claim_type''")
  case None
  then show ?thesis .
next
  case (Some v)
  from extract_patterns_source [OF Some] obtain patterns where
    "(''claim_type'', patterns) \<in> set PATTERNS"
    by auto
  then have "''claim_type'' \<in> set (map fst PATTERNS)"
    by force
  then show ?thesis using claim_type_no_pattern_key by blast
qed

lemma section_field_other_key:
  "key \<noteq> k \<Longrightarrow> section_field k r convert vehicle_text info key = info key"
  by (auto simp: section_field_def split: option.splits prod.splits)

lemma vehicle_fields_other_key:
  "key \<notin> set [''year'', ''make'', ''model'', ''vin'', ''plate_number''] \<Longrightarrow>
     vehicle_fields vehicle_text key = None"
  by (simp add: vehicle_fields_def section_field_other_key)

lemma vehicle_info_from_other_key:
  "key \<notin> set [''year'', ''make'', ''model'', ''vin'', ''plate_number''] \<Longrightarrow>
     vehicle_info_from rs doc key = None"
proof (induction rs)
  case Nil
  then show ?case by simp
next
  case (Cons r rs)
  then show ?case
    by (cases "re_search FLAGS_IS r doc")
       (auto simp: vehicle_fields_other_key simp del: re_search.simps)
qed

lemma find_phone_other_key:
  "key \<noteq> ''contact_phone'' \<Longrightarrow> find_phone rs doc key = None"
proof (induction rs)
  case Nil
  then show ?case by simp
next
  case (Cons r rs)
  then show ?case
    by (cases "re_search FLAGS_I r doc")
       (auto simp: Let_def split: option.splits simp del: re_search.simps)
qed

lemma find_email_other_key:
  "key \<noteq> ''contact_email'' \<Longrightarrow> find_email rs doc key = None"
proof (induction rs)
  case Nil
  then show ?case by simp
next
  case (Cons r rs)
  then show ?case
    by (cases "re_search FLAGS_I r doc")
       (auto split: option.splits simp del: re_search.simps)
qed

lemma substructures_other_key:
  assumes "key \<notin> set [''year'', ''make'', ''model'', ''vin'', ''plate_number'',
                        ''contact_phone'', ''contact_email'']"
  shows "(m ++ extract_vehicle_info doc ++ extract_contact_info doc) key = m key"
proof -
  have v: "extract_vehicle_info doc key = None"
    using assms by (simp add: extract_vehicle_info_def vehicle_info_from_other_key)
  have c: "extract_contact_info doc key = None"
    using assms
    by (simp add: extract_contact_info_def find_phone_other_key find_email_other_key
          map_add_def)
  show ?thesis using v c by (simp add: map_add_def)
qed

lemma amount_fallback_other_key:
  "key \<notin> set [''estimated_damage'', ''estimate_amount''] \<Longrightarrow>
     amount_fallback doc extracted key = extracted key"
  by (auto simp: amount_fallback_def Let_def split: option.splits prod.splits
           simp del: re_search.simps)

lemma sync_amounts_other_key:
  "key \<notin> set [''estimated_damage'', ''estimate_amount''] \<Longrightarrow>
     sync_amounts extracted key = extracted key"
  by (auto simp: sync_amounts_def split: option.splits)

lemma infer_claim_type_values:
  "infer_claim_type d \<in> set [''injury'', ''theft'', ''fire'', ''water_damage'', ''vandalism'',
                               ''vehicle_damage'', ''property_damage'']"
  by (simp add: infer_claim_type_def Let_def)

lemma strip_claim_types:
  "t \<in> set [''injury'', ''theft'', ''fire'', ''water_damage'', ''vandalism'',
             ''vehicle_damage'', ''property_damage''] \<Longrightarrow> strip t = t \<and> t \<noteq> []"
proof -
  have "strip ''injury'' = ''injury''" "strip ''theft'' = ''theft''" "strip ''fire'' = ''fire''"
    "strip ''water_damage'' = ''water_damage''" "strip ''vandalism'' = ''vandalism''"
    "strip ''vehicle_damage'' = ''vehicle_damage''"
    "strip ''property_damage'' = ''property_damage''"
    by code_simp+
  then show "t \<in> set [''injury'', ''theft'', ''fire'', ''water_damage'', ''vandalism'',
             ''vehicle_damage'', ''property_damage''] \<Longrightarrow> strip t = t \<and> t \<noteq> []"
    by auto
qed

lemma extraction_claim_type:
  "\<exists>ef d. extract_all_fields sp document_text = Inr ef
          \<and> ef ''claim_type'' = Some (PStr (infer_claim_type d))"
proof -
  let ?doc = "normalize_text document_text"
  let ?r = "extract_patterns sp ?doc PATTERNS Map.empty"
  let ?s = "sync_amounts ?r"
  have ct: "?s ''claim_type'' = None"
    by (simp add: sync_amounts_other_key pattern_no_claim_type)
  have ds: "?s ''description'' = ?r ''description''"
    by (simp add: sync_amounts_other_key)
  have "\<exists>d. set_claim_type ?s = Inr (?s(''claim_type'' \<mapsto> PStr (infer_claim_type d)))"
  proof (cases "?r ''description''")
    case None
    then show ?thesis using ct ds by (auto simp: set_claim_type_def)
  next
    case (Some v)
    then obtain d where "v = PStr d" using pattern_description_typed by blast
    then show ?thesis using ct ds Some by (auto simp: set_claim_type_def)
  qed
  then obtain d where
    d: "set_claim_type ?s = Inr (?s(''claim_type'' \<mapsto> PStr (infer_claim_type d)))"
    by blast
  let ?typed = "?s(''claim_type'' \<mapsto> PStr (infer_claim_type d))"
  let ?ef = "strip_values (amount_fallback ?doc ?typed
                            ++ extract_vehicle_info ?doc ++ extract_contact_info ?doc)"
  have e: "extract_all_fields sp document_text = Inr ?ef"
    using d by (simp add: extract_all_fields_def post_process_fields_def Let_def)
  have "(amount_fallback ?doc ?typed ++ extract_vehicle_info ?doc ++ extract_contact_info ?doc)
          ''claim_type'' = Some (PStr (infer_claim_type d))"
    by (simp add: substructures_other_key amount_fallback_other_key)
  then have "?ef ''claim_type'' = Some (PStr (strip (infer_claim_type d)))"
    by (simp add: strip_values_def)
  then have "?ef ''claim_type'' = Some (PStr (infer_claim_type d))"
    using strip_claim_types [OF infer_claim_type_values] by simp
  then show ?thesis using e by blast
qed







lemma clean_amount_value:
  "field \<in> set [''estimated_damage'', ''estimate_amount''] \<Longrightarrow>
     clean_field_value sp x field = PNone \<or> (\<exists>f. clean_field_value sp x field = PFloat f)"
  by (auto simp: clean_field_value_def Let_def)

lemma pattern_amount_typed:
  assumes "field \<in> set [''estimated_damage'', ''estimate_amount'']"
    and "extract_patterns sp doc PATTERNS Map.empty field = Some v"
  shows "\<exists>f. v = PFloat f \<and> float_truthy f"
proof -
  have t: "truthy v"
    using assms(2) by (rule extract_patterns_truthy [rotated]) simp
  from extract_patterns_source [OF assms(2)] obtain patterns where
    v: "v = extract_with_patterns sp doc patterns field"
    by auto
  from extract_with_patterns_cases [of sp doc patterns field]
  show ?thesis
  proof
    assume "extract_with_patterns sp doc patterns field = PNone"
    then show ?thesis using t v by simp
  next
    assume "\<exists>x. extract_with_patterns sp doc patterns field = clean_field_value sp x field"
    then obtain x where
      "extract_with_patterns sp doc patterns field = clean_field_value sp x field" by blast
    then show ?thesis
      using t v clean_amount_value [OF assms(1), of sp x] by auto
  qed
qed

lemma set_claim_type_other_key:
  "set_claim_type extracted = Inr typed \<Longrightarrow> key \<noteq> ''claim_type'' \<Longrightarrow>
     typed key = extracted key"
  by (auto simp: set_claim_type_def split: option.splits pyval.splits if_splits)

lemma strip_values_float:
  "strip_values m key = Some (PFloat f) \<longleftrightarrow> m key = Some (PFloat f)"
  by (auto simp: strip_values_def split: option.splits pyval.splits)

lemma strip_values_none: "strip_values m key = None \<longleftrightarrow> m key = None"
  by (auto simp: strip_values_def split: option.splits pyval.splits)

lemma amount_fallback_kept:
  "extracted ''estimated_damage'' = Some (PFloat f) \<Longrightarrow> float_truthy f \<Longrightarrow>
     amount_fallback doc extracted = extracted"
  by (simp add: amount_fallback_def del: re_search.simps)

lemma amount_fallback_agree:
  "extracted ''estimated_damage'' = None \<Longrightarrow> extracted ''estimate_amount'' = None \<Longrightarrow>
     amount_fallback doc extracted ''estimated_damage''
       = amount_fallback doc extracted ''estimate_amount''
     \<and> (amount_fallback doc extracted ''estimated_damage'' = None
          \<or> (\<exists>f. amount_fallback doc extracted ''estimated_damage'' = Some (PFloat f)))"
proof (cases "re_search FLAGS_NONE dollar_amount doc")
  case None
  assume "extracted ''estimated_damage'' = None" "extracted ''estimate_amount'' = None"
  then show ?thesis using None by (simp add: amount_fallback_def del: re_search.simps)
next
  case (Some m)
  assume e: "extracted ''estimated_damage'' = None" "extracted ''estimate_amount'' = None"
  obtain whole g where m: "m = (whole, g)" by (cases m)
  show ?thesis
  proof (cases g)
    case None
    then show ?thesis
      using e Some m by (simp add: amount_fallback_def del: re_search.simps)
  next
    case (Some captured)
    then show ?thesis
      using e \<open>re_search FLAGS_NONE dollar_amount doc = Some m\<close> m
      by (simp add: amount_fallback_def Let_def del: re_search.simps)
  qed
qed

lemma sync_amounts_cases:
  "sync_amounts r ''estimated_damage''
     = (case r ''estimated_damage'' of Some v \<Rightarrow> Some v | None \<Rightarrow> r ''estimate_amount'')"
  "sync_amounts r ''estimate_amount''
     = (case r ''estimate_amount'' of Some v \<Rightarrow> Some v | None \<Rightarrow> r ''estimated_damage'')"
  by (simp_all add: sync_amounts_def split: option.splits)

lemma extraction_shape:
  "\<exists>typed. set_claim_type (sync_amounts
                (extract_patterns sp (normalize_text document_text) PATTERNS Map.empty))
             = Inr typed
     \<and> extract_all_fields sp document_text
         = Inr (strip_values (amount_fallback (normalize_text document_text) typed
                  ++ extract_vehicle_info (normalize_text document_text)
                  ++ extract_contact_info (normalize_text document_text)))"
proof -
  let ?doc = "normalize_text document_text"
  let ?s = "sync_amounts (extract_patterns sp ?doc PATTERNS Map.empty)"
  from extraction_claim_type [of sp document_text] obtain ef0 where
    e: "extract_all_fields sp document_text = Inr ef0" by blast
  show ?thesis
  proof (cases "set_claim_type ?s")
    case (Inl err)
    then have "extract_all_fields sp document_text = Inl err"
      by (simp add: extract_all_fields_def post_process_fields_def)
    then show ?thesis using e by simp
  next
    case (Inr typed)
    then have "extract_all_fields sp document_text
         = Inr (strip_values (amount_fallback ?doc typed
                  ++ extract_vehicle_info ?doc ++ extract_contact_info ?doc))"
      by (simp add: extract_all_fields_def post_process_fields_def Let_def)
    then show ?thesis using Inr by blast
  qed
qed

lemma final_amount_key:
  "key \<in> set [''estimated_damage'', ''estimate_amount''] \<Longrightarrow>
     strip_values (m ++ extract_vehicle_info doc ++ extract_contact_info doc) key
       = strip_values m key"
proof -
  assume "key \<in> set [''estimated_damage'', ''estimate_amount'']"
  then have "key \<notin> set [''year'', ''make'', ''model'', ''vin'', ''plate_number'',
                          ''contact_phone'', ''contact_email'']"
    by auto
  then have "(m ++ extract_vehicle_info doc ++ extract_contact_info doc) key = m key"
    by (rule substructures_other_key)
  then show ?thesis by (simp add: strip_values_def)
qed

text \<open>
  What post-processing makes of the two amount keys, from what the pattern loop stored
  under them: one is present exactly when the other is, and they hold the same value
  unless the loop stored both, in which case each keeps the value the loop gave it.
\<close>

lemma amounts_after_post_processing:
  fixes sp document_text
  defines "r \<equiv> extract_patterns sp (normalize_text document_text) PATTERNS Map.empty"
    and "final \<equiv> field_of (extract_all_fields sp document_text)"
  shows "(final ''estimated_damage'' = None \<longleftrightarrow> final ''estimate_amount'' = None)
       \<and> (r ''estimated_damage'' = None \<or> r ''estimate_amount'' = None
            \<longrightarrow> final ''estimated_damage'' = final ''estimate_amount'')
       \<and> (r ''estimated_damage'' \<noteq> None \<and> r ''estimate_amount'' \<noteq> None
            \<longrightarrow> final ''estimated_damage'' = r ''estimated_damage''
                \<and> final ''estimate_amount'' = r ''estimate_amount'')"
proof -
  let ?doc = "normalize_text document_text"
  from extraction_shape [of sp document_text, folded r_def] obtain typed where
    typed: "set_claim_type (sync_amounts r) = Inr typed"
    and e: "extract_all_fields sp document_text
              = Inr (strip_values (amount_fallback ?doc typed
                       ++ extract_vehicle_info ?doc ++ extract_contact_info ?doc))"
    by (elim exE conjE) (rule that)
  let ?a = "amount_fallback ?doc typed"
  let ?ef = "strip_values (?a ++ extract_vehicle_info ?doc ++ extract_contact_info ?doc)"
  have fin: "final key = ?ef key" for key
    unfolding final_def e by (simp add: field_of_def)
  have ef_ed: "?ef ''estimated_damage'' = strip_values ?a ''estimated_damage''"
    by (rule final_amount_key) simp
  have ef_ea: "?ef ''estimate_amount'' = strip_values ?a ''estimate_amount''"
    by (rule final_amount_key) simp
  have t_ed: "typed ''estimated_damage'' = sync_amounts r ''estimated_damage''"
    by (rule set_claim_type_other_key [OF typed]) simp
  have t_ea: "typed ''estimate_amount'' = sync_amounts r ''estimate_amount''"
    by (rule set_claim_type_other_key [OF typed]) simp
  have typed_r: "\<exists>f. v = PFloat f \<and> float_truthy f"
    if "field \<in> set [''estimated_damage'', ''estimate_amount'']" "r field = Some v"
    for field v
    using that unfolding r_def by (rule pattern_amount_typed)
  have app: "strip_values m key = (case m key of Some (PStr s) \<Rightarrow> Some (PStr (strip s)) | v \<Rightarrow> v)"
    for m key
    by (simp add: strip_values_def)
  have main: "(?ef ''estimated_damage'' = None \<longleftrightarrow> ?ef ''estimate_amount'' = None)
           \<and> (r ''estimated_damage'' = None \<or> r ''estimate_amount'' = None
                \<longrightarrow> ?ef ''estimated_damage'' = ?ef ''estimate_amount'')
           \<and> (r ''estimated_damage'' \<noteq> None \<and> r ''estimate_amount'' \<noteq> None
                \<longrightarrow> ?ef ''estimated_damage'' = r ''estimated_damage''
                    \<and> ?ef ''estimate_amount'' = r ''estimate_amount'')"
  proof (cases "r ''estimated_damage''")
    case None
    note ed = None
    show ?thesis
    proof (cases "r ''estimate_amount''")
      case None
      have "typed ''estimated_damage'' = None" "typed ''estimate_amount'' = None"
        using ed None by (simp_all add: t_ed t_ea sync_amounts_cases)
      from amount_fallback_agree [OF this, of ?doc]
      have "strip_values ?a ''estimated_damage'' = strip_values ?a ''estimate_amount''"
        by (auto simp: app)
      then have eq: "?ef ''estimated_damage'' = ?ef ''estimate_amount''"
        by (simp only: ef_ed ef_ea)
      show ?thesis unfolding eq using ed by simp
    next
      case (Some w)
      from typed_r [of "''estimate_amount''" w] Some obtain g where
        g: "w = PFloat g" "float_truthy g" by auto
      have ty: "typed ''estimated_damage'' = Some (PFloat g)"
               "typed ''estimate_amount'' = Some (PFloat g)"
        using ed Some g by (simp_all add: t_ed t_ea sync_amounts_cases)
      have a: "?a = typed" using ty(1) g(2) by (rule amount_fallback_kept)
      have "strip_values ?a ''estimated_damage'' = Some (PFloat g)"
        by (simp add: app a ty)
      then have fed: "?ef ''estimated_damage'' = Some (PFloat g)"
        by (rule trans [OF ef_ed])
      have "strip_values ?a ''estimate_amount'' = Some (PFloat g)"
        by (simp add: app a ty)
      then have fea: "?ef ''estimate_amount'' = Some (PFloat g)"
        by (rule trans [OF ef_ea])
      show ?thesis unfolding fed fea using ed by simp
    qed
  next
    case (Some v)
    note ed = Some
    from typed_r [of "''estimated_damage''" v] Some obtain f where
      f: "v = PFloat f" "float_truthy f" by auto
    have ty1: "typed ''estimated_damage'' = Some (PFloat f)"
      using ed f by (simp add: t_ed sync_amounts_cases)
    have a: "?a = typed" using ty1 f(2) by (rule amount_fallback_kept)
    have "strip_values ?a ''estimated_damage'' = Some (PFloat f)"
      by (simp add: app a ty1)
    then have fed: "?ef ''estimated_damage'' = Some (PFloat f)"
      by (rule trans [OF ef_ed])
    show ?thesis
    proof (cases "r ''estimate_amount''")
      case None
      have "typed ''estimate_amount'' = Some (PFloat f)"
        using ed None f by (simp add: t_ea sync_amounts_cases)
      then have "strip_values ?a ''estimate_amount'' = Some (PFloat f)"
        by (simp add: app a)
      then have fea: "?ef ''estimate_amount'' = Some (PFloat f)"
        by (rule trans [OF ef_ea])
      show ?thesis unfolding fed fea using None by simp
    next
      case (Some w)
      from typed_r [of "''estimate_amount''" w] Some obtain g where
        g: "w = PFloat g" "float_truthy g" by auto
      have "typed ''estimate_amount'' = Some (PFloat g)"
        using Some g by (simp add: t_ea sync_amounts_cases)
      then have "strip_values ?a ''estimate_amount'' = Some (PFloat g)"
        by (simp add: app a)
      then have fea: "?ef ''estimate_amount'' = Some (PFloat g)"
        by (rule trans [OF ef_ea])
      show ?thesis unfolding fed fea using ed Some f g by simp
    qed
  qed
  show ?thesis unfolding fin by (rule main)
qed

lemma amounts_differ:
  "field_of (extract_all_fields sp (Some ''$5 Amount: $8'')) ''estimated_damage''
     = Some (PFloat (Fin 8))"
  "field_of (extract_all_fields sp (Some ''$5 Amount: $8'')) ''estimate_amount''
     = Some (PFloat (Fin 5))"
  by code_simp+

text \<open>
  C5. The text \<open>$5 Amount: $8\<close>: the fourth pattern of \<open>estimated_damage\<close> reads the
  amount after the label, the last pattern of \<open>estimate_amount\<close> reads the first dollar
  figure of the text. Both keys are then present, so the synchronisation leaves them as
  they are, and the two keys hold different values after post-processing.
\<close>

theorem synonym_amounts_differ:
  "field_of (extract_all_fields unparsed (Some ''$5 Amount: $8'')) ''estimated_damage''
     = Some (PFloat (Fin 8))
   \<and> field_of (extract_all_fields unparsed (Some ''$5 Amount: $8'')) ''estimate_amount''
     = Some (PFloat (Fin 5))"
  by (simp add: amounts_differ)

end
